theory Spec2Isabelle
  imports Complex_Main "HOL-Library.Sublist"
begin

section \<open>Strings and the regular expressions of \<open>main.py\<close>\<close>

text \<open>
  A Python \<open>str\<close> is the list of its code points. A literal of the program is written
  \<open>str_of ''...''\<close>.
\<close>

type_synonym pystr = "nat list"

definition str_of :: "string \<Rightarrow> pystr" where
  "str_of s = map of_char s"

text \<open>
  No pattern of the program is compiled with a flag, so \<open>\d\<close> matches the code points of
  the Unicode category Nd (decimal digits). Below 128 these are the ten digits
  \<open>0\<close> to \<open>9\<close>. The rest of the table belongs to the Unicode database of the interpreter,
  not to the program: it is the parameter \<open>nd\<close>, consulted only from code point 128 on.
  \<open>[a-zA-Z0-9]\<close> matches the ASCII letters and digits and nothing else.
\<close>

definition is_digit :: "(nat \<Rightarrow> bool) \<Rightarrow> nat \<Rightarrow> bool" where
  "is_digit nd c = ((48 \<le> c \<and> c \<le> 57) \<or> (128 \<le> c \<and> nd c))"

definition is_alnum :: "nat \<Rightarrow> bool" where
  "is_alnum c = ((97 \<le> c \<and> c \<le> 122) \<or> (65 \<le> c \<and> c \<le> 90) \<or> (48 \<le> c \<and> c \<le> 57))"

text \<open>
  \<open>lit_then_run lit cls s\<close> matches, at the start of \<open>s\<close>, the literal \<open>lit\<close> followed by
  \<open>[cls]+\<close>, and returns the code points the class matched. The quantifier is greedy and
  nothing follows it in any pattern of the program, so it takes the longest run.
\<close>

definition lit_then_run :: "pystr \<Rightarrow> (nat \<Rightarrow> bool) \<Rightarrow> pystr \<Rightarrow> pystr option" where
  "lit_then_run lit cls s =
     (if prefix lit s
      then (let run = takeWhile cls (drop (length lit) s)
            in if run = [] then None else Some run)
      else None)"

text \<open>
  \<open>re.search\<close>: the pattern is tried at every start position from left to right and the
  first position where it matches wins. No pattern of the program matches the empty
  string, so the position past the last character is tried through the matcher as well.
\<close>

fun re_search :: "(pystr \<Rightarrow> 'a option) \<Rightarrow> pystr \<Rightarrow> 'a option" where
  "re_search m [] = m []"
| "re_search m (c # cs) =
     (case m (c # cs) of Some r \<Rightarrow> Some r | None \<Rightarrow> re_search m cs)"

text \<open>\<open>https?://v\.douyin\.com/[a-zA-Z0-9]+\<close> at one position; the result is group 0.\<close>

definition short_link_at :: "pystr \<Rightarrow> pystr option" where
  "short_link_at s =
     (case lit_then_run (str_of ''https://v.douyin.com/'') is_alnum s of
        Some tok \<Rightarrow> Some ((str_of ''https://v.douyin.com/'') @ tok)
      | None \<Rightarrow>
          (case lit_then_run (str_of ''http://v.douyin.com/'') is_alnum s of
             Some tok \<Rightarrow> Some ((str_of ''http://v.douyin.com/'') @ tok)
           | None \<Rightarrow> None))"

text \<open>\<open>/(?:video|note)/(\d+)\<close> at one position; the result is group 1.\<close>

definition video_pattern_at :: "(nat \<Rightarrow> bool) \<Rightarrow> pystr \<Rightarrow> pystr option" where
  "video_pattern_at nd s =
     (case lit_then_run (str_of ''/video/'') (is_digit nd) s of
        Some d \<Rightarrow> Some d
      | None \<Rightarrow> lit_then_run (str_of ''/note/'') (is_digit nd) s)"

text \<open>\<open>aweme_id=(\d+)\<close> and \<open>vid=(\d+)\<close> at one position; the result is group 1.\<close>

definition aweme_pattern_at :: "(nat \<Rightarrow> bool) \<Rightarrow> pystr \<Rightarrow> pystr option" where
  "aweme_pattern_at nd s = lit_then_run (str_of ''aweme_id='') (is_digit nd) s"

definition vid_pattern_at :: "(nat \<Rightarrow> bool) \<Rightarrow> pystr \<Rightarrow> pystr option" where
  "vid_pattern_at nd s = lit_then_run (str_of ''vid='') (is_digit nd) s"

text \<open>Python's \<open>sub in s\<close> on strings.\<close>

definition str_in :: "pystr \<Rightarrow> pystr \<Rightarrow> bool" where
  "str_in sub s = sublist sub s"

section \<open>URL Normalizer and Identifier Extractor\<close>

definition clean_url :: "pystr \<Rightarrow> pystr" where
  "clean_url url =
     (case re_search short_link_at url of
        Some m \<Rightarrow> m
      | None \<Rightarrow>
          (if prefix (str_of ''https://www.douyin.com/'') url then url else url))"

definition extract_video_id :: "(nat \<Rightarrow> bool) \<Rightarrow> pystr \<Rightarrow> pystr option" where
  "extract_video_id nd url =
     (case re_search (video_pattern_at nd) url of
        Some g \<Rightarrow> Some g
      | None \<Rightarrow>
          (case re_search (aweme_pattern_at nd) url of
             Some g \<Rightarrow> Some g
           | None \<Rightarrow>
               (case re_search (vid_pattern_at nd) url of
                  Some g \<Rightarrow> Some g
                | None \<Rightarrow> None)))"

section \<open>Python values, exceptions and the outside world\<close>

text \<open>
  The value \<open>response.json()\<close> returns: \<open>None\<close>, a \<open>bool\<close>, an \<open>int\<close>, a \<open>float\<close>, a \<open>str\<close>,
  a \<open>list\<close> or a \<open>dict\<close> with string keys. A \<open>dict\<close> is an association list read with
  \<open>map_of\<close>. Of a \<open>float\<close> the program observes only whether it is zero.
\<close>

datatype json =
    JNone
  | JBool bool
  | JInt int
  | JFloat real
  | JStr pystr
  | JList "json list"
  | JDict "(pystr \<times> json) list"

text \<open>
  The exceptions of the program. \<open>LibraryError msg\<close> is an exception raised inside a
  library call (httpx, Playwright, the JSON decoder), with \<open>str(e) = msg\<close>. All five are
  subclasses of \<open>Exception\<close>, so every \<open>except Exception\<close> of the program catches each of
  them. Exceptions outside \<open>Exception\<close> (task cancellation, interpreter exit) are not
  modelled.
\<close>

datatype exn =
    HTTPException int pystr
  | KeyError
  | TypeError
  | IndexError
  | LibraryError pystr

text \<open>The dictionary both fetchers return (\<open>Dict[str, Any]\<close>): the four keys, each with a
  value of any kind.\<close>

record video_data =
  aweme_id :: json
  desc :: json
  video_url :: json
  author :: json

text \<open>The response of \<open>client.get\<close>: the status and what \<open>response.json()\<close> does.\<close>

record http_response =
  status_code :: int
  response_json :: "pystr + json"

text \<open>A response the page makes, as the observer \<open>handle_response\<close> sees it.\<close>

record page_response =
  page_response_url :: pystr
  page_response_json :: "pystr + json"

text \<open>
  One browser session, as the outcomes of the Playwright calls in the order
  \<open>get_data_with_playwright\<close> makes them. \<open>Inl msg\<close> and \<open>Some msg\<close> stand for a call
  that raises an exception with that message.
  \<^item> \<open>launch\<close>: \<open>sync_playwright()\<close>, \<open>chromium.launch\<close>, \<open>new_page\<close>, \<open>page.on\<close>;
  \<^item> \<open>first_nav\<close>: \<open>page.goto(url)\<close> and the wait of 5000 ms, with the responses observed;
  \<^item> \<open>page_url\<close>: \<open>page.url\<close> after that;
  \<^item> \<open>second_nav\<close>: \<open>page.goto(api_url)\<close> and the wait of 2000 ms, with the responses;
  \<^item> \<open>page_title\<close>: \<open>page.title()\<close>;
  \<^item> \<open>close_browser\<close>: \<open>browser.close()\<close> and leaving the \<open>with\<close> block.
\<close>

record browser_run =
  launch :: "pystr option"
  first_nav :: "pystr + page_response list"
  page_url :: pystr
  second_nav :: "pystr \<Rightarrow> pystr + page_response list"
  page_title :: "pystr + pystr"
  close_browser :: "pystr option"

text \<open>
  The world one request runs in: the capability flag fixed at import, and what each
  outbound call answers. \<open>redirect_get u\<close> is \<open>client.get(u)\<close> with redirects followed:
  \<open>Inr\<close> of \<open>str(response.url)\<close>, or \<open>Inl\<close> of the message of the exception it raises.
  A request makes each kind of call at most once, so a function of the argument loses
  nothing.
\<close>

record env =
  PLAYWRIGHT_AVAILABLE :: bool
  redirect_get :: "pystr \<Rightarrow> pystr + pystr"
  api_get :: "pystr \<Rightarrow> pystr + http_response"
  browser :: "pystr \<Rightarrow> browser_run"

text \<open>
  What a function did, in order: the requests of the HTTP client, the calls of the
  browser, and each call of \<open>get_data_with_playwright\<close> itself. A request is recorded when
  \<open>client.get\<close> is called, whatever the library then does with it.
\<close>

datatype call =
    RedirectGet pystr
  | ApiGet pystr
  | GetDataWithPlaywright pystr
  | BrowserLaunch
  | BrowserGoto pystr

fun is_browser_call :: "call \<Rightarrow> bool" where
  "is_browser_call (GetDataWithPlaywright u) = True"
| "is_browser_call BrowserLaunch = True"
| "is_browser_call (BrowserGoto u) = True"
| "is_browser_call c = False"

subsection \<open>Python's operators on these values\<close>

text \<open>Truth value of a Python value (\<open>if data\<close>).\<close>

fun py_truthy :: "json \<Rightarrow> bool" where
  "py_truthy JNone = False"
| "py_truthy (JBool b) = b"
| "py_truthy (JInt i) = (i \<noteq> 0)"
| "py_truthy (JFloat x) = (x \<noteq> 0)"
| "py_truthy (JStr s) = (s \<noteq> [])"
| "py_truthy (JList xs) = (xs \<noteq> [])"
| "py_truthy (JDict kvs) = (kvs \<noteq> [])"

text \<open>
  \<open>k in data\<close> for a string \<open>k\<close>: key membership in a \<open>dict\<close>, element membership in a
  \<open>list\<close>, substring test in a \<open>str\<close>, \<open>TypeError\<close> on anything else.
\<close>

fun py_in :: "pystr \<Rightarrow> json \<Rightarrow> exn + bool" where
  "py_in k (JDict kvs) = Inr (map_of kvs k \<noteq> None)"
| "py_in k (JList xs) = Inr (List.member xs (JStr k))"
| "py_in k (JStr s) = Inr (str_in k s)"
| "py_in k v = Inl TypeError"

text \<open>\<open>v[k]\<close> for a string \<open>k\<close>.\<close>

fun getitem_str :: "json \<Rightarrow> pystr \<Rightarrow> exn + json" where
  "getitem_str (JDict kvs) k = (case map_of kvs k of None \<Rightarrow> Inl KeyError | Some v \<Rightarrow> Inr v)"
| "getitem_str v k = Inl TypeError"

text \<open>\<open>v[0]\<close>. The keys of a \<open>dict\<close> read from JSON are strings, so \<open>0\<close> is never one.\<close>

fun getitem_0 :: "json \<Rightarrow> exn + json" where
  "getitem_0 (JList []) = Inl IndexError"
| "getitem_0 (JList (x # xs)) = Inr x"
| "getitem_0 (JStr []) = Inl IndexError"
| "getitem_0 (JStr (c # cs)) = Inr (JStr [c])"
| "getitem_0 (JDict kvs) = Inl KeyError"
| "getitem_0 v = Inl TypeError"

text \<open>Sequencing of steps that may raise: the first exception ends the block.\<close>

definition and_then :: "'e + 'a \<Rightarrow> ('a \<Rightarrow> 'e + 'b) \<Rightarrow> 'e + 'b" where
  "and_then r f = (case r of Inl e \<Rightarrow> Inl e | Inr x \<Rightarrow> f x)"

definition library_call :: "pystr + 'a \<Rightarrow> exn + 'a" where
  "library_call r = (case r of Inl msg \<Rightarrow> Inl (LibraryError msg) | Inr x \<Rightarrow> Inr x)"

section \<open>Redirect Resolver\<close>

definition follow_redirect :: "env \<Rightarrow> pystr \<Rightarrow> (exn + pystr) \<times> call list" where
  "follow_redirect env short_url =
     (case library_call (redirect_get env short_url) of
        Inr final \<Rightarrow> (Inr final, [RedirectGet short_url])
      | Inl e \<Rightarrow> (Inr short_url, [RedirectGet short_url]))"

section \<open>Lightweight Fetcher\<close>

definition api_url_of :: "pystr \<Rightarrow> pystr" where
  "api_url_of video_id =
     (str_of ''https://www.douyin.com/aweme/v1/web/aweme/detail/?device_platform=webapp&aid=6383&channel=channel_pc_web&aweme_id='')
       @ video_id"

text \<open>
  The dictionary display of lines 92--97 (and 135--140): the four values are evaluated in
  the order written, and the first lookup that raises ends the evaluation.
\<close>

definition detail_fields :: "json \<Rightarrow> exn + video_data" where
  "detail_fields detail =
     and_then (getitem_str detail (str_of ''aweme_id'')) (\<lambda>a.
     and_then (getitem_str detail (str_of ''desc'')) (\<lambda>d.
     and_then (getitem_str detail (str_of ''video'')) (\<lambda>video.
     and_then (getitem_str video (str_of ''play_addr'')) (\<lambda>play_addr.
     and_then (getitem_str play_addr (str_of ''url_list'')) (\<lambda>url_list.
     and_then (getitem_0 url_list) (\<lambda>u.
     and_then (getitem_str detail (str_of ''author'')) (\<lambda>au.
     and_then (getitem_str au (str_of ''nickname'')) (\<lambda>n.
       Inr \<lparr>aweme_id = a, desc = d, video_url = u, author = n\<rparr>))))))))"

definition unavailable_record :: "pystr \<Rightarrow> pystr \<Rightarrow> video_data" where
  "unavailable_record url video_id =
     \<lparr>aweme_id = JStr video_id, desc = JStr (str_of ''Video Description Unavailable''),
      video_url = JStr url, author = JStr (str_of ''Unknown'')\<rparr>"

definition error_record :: "pystr \<Rightarrow> pystr \<Rightarrow> video_data" where
  "error_record url video_id =
     \<lparr>aweme_id = JStr video_id, desc = JStr (str_of ''Error retrieving video details''),
      video_url = JStr url, author = JStr (str_of ''Unknown'')\<rparr>"

text \<open>The body of the \<open>try\<close> of \<open>fetch_data_with_httpx\<close>, lines 78--105.\<close>

definition fetch_try :: "env \<Rightarrow> pystr \<Rightarrow> pystr \<Rightarrow> exn + video_data" where
  "fetch_try env url video_id =
     and_then (library_call (api_get env (api_url_of video_id))) (\<lambda>response.
       if status_code response = 200 then
         and_then (library_call (response_json response)) (\<lambda>data.
           if py_truthy data then
             and_then (py_in (str_of ''aweme_detail'') data) (\<lambda>present.
               if present then
                 and_then (getitem_str data (str_of ''aweme_detail'')) (\<lambda>detail.
                   detail_fields detail)
               else Inr (unavailable_record url video_id))
           else Inr (unavailable_record url video_id))
       else Inr (unavailable_record url video_id))"

definition fetch_data_with_httpx :: "env \<Rightarrow> pystr \<Rightarrow> pystr \<Rightarrow> (exn + video_data) \<times> call list" where
  "fetch_data_with_httpx env url video_id =
     (case fetch_try env url video_id of
        Inr r \<Rightarrow> (Inr r, [ApiGet (api_url_of video_id)])
      | Inl e \<Rightarrow> (Inr (error_record url video_id), [ApiGet (api_url_of video_id)]))"

section \<open>Browser-Driven Fetcher\<close>

text \<open>
  The variable \<open>video_data\<close> of \<open>get_data_with_playwright\<close> starts as the empty dictionary
  and is only ever replaced by a dictionary of the four fields: \<open>None\<close> is the empty
  dictionary, the one value for which \<open>not video_data\<close> holds.

  The observer: a response whose URL contains the detail path replaces \<open>video_data\<close> when
  its body parses and has the fields; every exception inside is caught and logged.
\<close>

definition handle_response :: "video_data option \<Rightarrow> page_response \<Rightarrow> video_data option" where
  "handle_response video_data response =
     (if str_in (str_of ''aweme/v1/web/aweme/detail'') (page_response_url response) then
        (case
           and_then (library_call (page_response_json response)) (\<lambda>json_data.
             if py_truthy json_data then
               and_then (py_in (str_of ''aweme_detail'') json_data) (\<lambda>present.
                 if present then
                   and_then (getitem_str json_data (str_of ''aweme_detail'')) (\<lambda>detail.
                   and_then (detail_fields detail) (\<lambda>r. Inr (Some r)))
                 else Inr video_data)
             else Inr video_data)
         of
           Inr v \<Rightarrow> v
         | Inl e \<Rightarrow> video_data)
      else video_data)"

text \<open>Lines 158--163: the record built from the page's title.\<close>

definition title_record :: "browser_run \<Rightarrow> pystr option \<Rightarrow> pystr \<Rightarrow> pystr + video_data" where
  "title_record run video_id current_url =
     (case page_title run of
        Inl msg \<Rightarrow> Inl msg
      | Inr title \<Rightarrow>
          Inr \<lparr>aweme_id = JStr (case video_id of
                                  None \<Rightarrow> (str_of ''unknown'')
                                | Some v \<Rightarrow> if v = [] then (str_of ''unknown'') else v),
               desc = JStr title, video_url = JStr current_url, author = JStr (str_of ''Unknown'')\<rparr>)"

text \<open>Lines 151--163, entered when nothing was captured during the first navigation.\<close>

definition second_chance :: "(nat \<Rightarrow> bool) \<Rightarrow> browser_run \<Rightarrow> pystr \<Rightarrow> (pystr + video_data) \<times> call list" where
  "second_chance nd run current_url =
     (let video_id = extract_video_id nd current_url in
      case video_id of
        None \<Rightarrow> (title_record run video_id current_url, [])
      | Some v \<Rightarrow>
          if v = [] then (title_record run video_id current_url, [])
          else
            (case second_nav run (api_url_of v) of
               Inl msg \<Rightarrow> (Inl msg, [BrowserGoto (api_url_of v)])
             | Inr responses \<Rightarrow>
                 (case foldl handle_response None responses of
                    Some captured \<Rightarrow> (Inr captured, [BrowserGoto (api_url_of v)])
                  | None \<Rightarrow>
                      (title_record run video_id current_url, [BrowserGoto (api_url_of v)]))))"

text \<open>The body of the \<open>try\<close> of \<open>get_data_with_playwright\<close>, lines 124--167.\<close>

definition playwright_try :: "(nat \<Rightarrow> bool) \<Rightarrow> browser_run \<Rightarrow> pystr \<Rightarrow> (pystr + video_data) \<times> call list" where
  "playwright_try nd run url =
     (case launch run of
        Some msg \<Rightarrow> (Inl msg, [BrowserLaunch])
      | None \<Rightarrow>
          (case first_nav run of
             Inl msg \<Rightarrow> (Inl msg, [BrowserLaunch, BrowserGoto url])
           | Inr responses \<Rightarrow>
               (case (case foldl handle_response None responses of
                        Some captured \<Rightarrow> (Inr captured, [])
                      | None \<Rightarrow> second_chance nd run (page_url run))
                of
                  (Inl msg, calls) \<Rightarrow> (Inl msg, [BrowserLaunch, BrowserGoto url] @ calls)
                | (Inr v, calls) \<Rightarrow>
                    (case close_browser run of
                       Some msg \<Rightarrow> (Inl msg, [BrowserLaunch, BrowserGoto url] @ calls)
                     | None \<Rightarrow> (Inr v, [BrowserLaunch, BrowserGoto url] @ calls)))))"

definition get_data_with_playwright ::
  "(nat \<Rightarrow> bool) \<Rightarrow> env \<Rightarrow> pystr \<Rightarrow> (exn + video_data) \<times> call list" where
  "get_data_with_playwright nd env url =
     (if \<not> PLAYWRIGHT_AVAILABLE env
      then (Inl (HTTPException 500 (str_of ''Playwright not available'')), [GetDataWithPlaywright url])
      else
        (case playwright_try nd (browser env url) url of
           (Inr v, calls) \<Rightarrow> (Inr v, GetDataWithPlaywright url # calls)
         | (Inl msg, calls) \<Rightarrow>
             (Inl (HTTPException 500 (str_of ''Playwright error: '' @ msg)),
              GetDataWithPlaywright url # calls)))"

section \<open>Orchestrator\<close>

text \<open>
  The handler of \<open>GET /douyin\<close>. \<open>Inl (HTTPException status detail)\<close> is the exception the
  framework turns into the response with that status; \<open>Inr\<close> is the dictionary returned.
\<close>

definition get_douyin_info :: "(nat \<Rightarrow> bool) \<Rightarrow> env \<Rightarrow> pystr \<Rightarrow> (exn + video_data) \<times> call list" where
  "get_douyin_info nd env raw =
     (case (if str_in (str_of ''v.douyin.com'') (clean_url raw)
            then follow_redirect env (clean_url raw)
            else (Inr (clean_url raw), []))
      of
        (Inl e, calls1) \<Rightarrow> (Inl e, calls1)
      | (Inr url, calls1) \<Rightarrow>
          (case extract_video_id nd url of
             None \<Rightarrow> (Inl (HTTPException 400 (str_of ''Could not extract video ID from URL'')), calls1)
           | Some video_id \<Rightarrow>
               if video_id = []
               then (Inl (HTTPException 400 (str_of ''Could not extract video ID from URL'')), calls1)
               else if PLAYWRIGHT_AVAILABLE env then
                 (case get_data_with_playwright nd env url of
                    (Inr v, calls2) \<Rightarrow> (Inr v, calls1 @ calls2)
                  | (Inl e, calls2) \<Rightarrow>
                      (case fetch_data_with_httpx env url video_id of
                         (r, calls3) \<Rightarrow> (r, calls1 @ calls2 @ calls3)))
               else
                 (case fetch_data_with_httpx env url video_id of
                    (r, calls3) \<Rightarrow> (r, calls1 @ calls3))))"

section \<open>The specification's vocabulary\<close>

text \<open>
  The forms the specification names, stated on the string itself. \<open>starts_with_form lit cls t\<close>:
  \<open>t\<close> begins with the literal \<open>lit\<close> followed by at least one character of the class.
\<close>

definition starts_with_form :: "pystr \<Rightarrow> (nat \<Rightarrow> bool) \<Rightarrow> pystr \<Rightarrow> bool" where
  "starts_with_form lit cls t = (\<exists>c rest. t = lit @ c # rest \<and> cls c)"

definition has_form :: "pystr list \<Rightarrow> (nat \<Rightarrow> bool) \<Rightarrow> pystr \<Rightarrow> bool" where
  "has_form lits cls s = (\<exists>pre t lit. s = pre @ t \<and> lit \<in> set lits \<and> starts_with_form lit cls t)"

text \<open>A path segment \<open>/video/<digits>\<close> or \<open>/note/<digits>\<close> somewhere in the URL.\<close>

definition has_path_form :: "(nat \<Rightarrow> bool) \<Rightarrow> pystr \<Rightarrow> bool" where
  "has_path_form nd url = has_form [str_of ''/video/'', str_of ''/note/''] (is_digit nd) url"

text \<open>\<open>aweme_id=<digits>\<close> and \<open>vid=<digits>\<close> somewhere in the URL.\<close>

definition has_aweme_form :: "(nat \<Rightarrow> bool) \<Rightarrow> pystr \<Rightarrow> bool" where
  "has_aweme_form nd url = has_form [str_of ''aweme_id=''] (is_digit nd) url"

definition has_vid_form :: "(nat \<Rightarrow> bool) \<Rightarrow> pystr \<Rightarrow> bool" where
  "has_vid_form nd url = has_form [str_of ''vid=''] (is_digit nd) url"

text \<open>A short link somewhere in the text: scheme, host \<open>v.douyin.com\<close>, alphanumeric token.\<close>

definition has_short_link :: "pystr \<Rightarrow> bool" where
  "has_short_link raw = has_form [str_of ''https://v.douyin.com/'', str_of ''http://v.douyin.com/''] is_alnum raw"

text \<open>
  \<open>leftmost_run lits cls s lit r\<close>: at the leftmost place of \<open>s\<close> where one of the literals
  is followed by a character of the class, the literal is \<open>lit\<close> and \<open>r\<close> is the longest run
  of the class after it.
\<close>

definition leftmost_run :: "pystr list \<Rightarrow> (nat \<Rightarrow> bool) \<Rightarrow> pystr \<Rightarrow> pystr \<Rightarrow> pystr \<Rightarrow> bool" where
  "leftmost_run lits cls s lit r =
     (lit \<in> set lits \<and>
      (\<exists>pre post.
         s = pre @ lit @ r @ post \<and> r \<noteq> [] \<and> list_all cls r \<and>
         (post = [] \<or> \<not> cls (hd post)) \<and>
         (\<forall>pre' t'. s = pre' @ t' \<and> length pre' < length pre \<longrightarrow>
            \<not> (\<exists>l. l \<in> set lits \<and> starts_with_form l cls t'))))"

text \<open>The URL the handler extracts the identifier from: normalized, then resolved when it
  is a short link (lines 178--182).\<close>

definition resolved_url :: "env \<Rightarrow> pystr \<Rightarrow> pystr" where
  "resolved_url env raw =
     (if str_in (str_of ''v.douyin.com'') (clean_url raw)
      then (case fst (follow_redirect env (clean_url raw)) of
              Inr final \<Rightarrow> final
            | Inl e \<Rightarrow> clean_url raw)
      else clean_url raw)"

text \<open>Reading a value along a chain of keys through nested dictionaries; \<open>None\<close> where a key
  is missing or the value reached is not a dictionary.\<close>

fun json_path :: "json \<Rightarrow> pystr list \<Rightarrow> json option" where
  "json_path v [] = Some v"
| "json_path (JDict kvs) (k # ks) =
     (case map_of kvs k of None \<Rightarrow> None | Some v \<Rightarrow> json_path v ks)"
| "json_path v (k # ks) = None"

text \<open>The outbound calls of lines 178--182: one request when the normalized URL is a short
  link, none otherwise.\<close>

definition redirect_calls :: "pystr \<Rightarrow> call list" where
  "redirect_calls raw =
     (if str_in (str_of ''v.douyin.com'') (clean_url raw) then [RedirectGet (clean_url raw)] else [])"

text \<open>\<open>DouyinResponse\<close> (lines 34--38), the specification's VideoRecord: the four fields are
  strings.\<close>

fun is_str :: "json \<Rightarrow> bool" where
  "is_str (JStr s) = True"
| "is_str v = False"

definition is_video_record :: "video_data \<Rightarrow> bool" where
  "is_video_record r = (is_str (aweme_id r) \<and> is_str (desc r) \<and> is_str (video_url r) \<and> is_str (author r))"

section \<open>Sample worlds\<close>

text \<open>A part of the table of decimal digits beyond ASCII: the fullwidth digits, U+FF10 to
  U+FF19. It stands for the table in the examples; on a string of ASCII code points the
  table is not consulted.\<close>

definition fullwidth_digit :: "nat \<Rightarrow> bool" where
  "fullwidth_digit c = (65296 \<le> c \<and> c \<le> 65305)"

text \<open>A browser whose launch fails, and a detail API that answers 404.\<close>

definition broken_browser :: browser_run where
  "broken_browser =
     \<lparr>launch = Some (str_of ''browser executable missing''), first_nav = Inr [], page_url = [],
      second_nav = (\<lambda>u. Inr []), page_title = Inr [], close_browser = None\<rparr>"

definition broken_env :: env where
  "broken_env =
     \<lparr>PLAYWRIGHT_AVAILABLE = True,
      redirect_get = (\<lambda>u. Inl (str_of ''unreachable'')),
      api_get = (\<lambda>u. Inr \<lparr>status_code = 404, response_json = Inl (str_of ''no body'')\<rparr>),
      browser = (\<lambda>u. broken_browser)\<rparr>"

text \<open>A well-formed body of the detail API.\<close>

definition sample_detail :: json where
  "sample_detail =
     JDict [(str_of ''aweme_id'', JStr (str_of ''999'')), (str_of ''desc'', JStr (str_of ''a clip'')),
            (str_of ''video'', JDict [(str_of ''play_addr'', JDict [(str_of ''url_list'',
               JList [JStr (str_of ''https://cdn.example/v.mp4''), JStr (str_of ''https://cdn2.example/v.mp4'')])])]),
            (str_of ''author'', JDict [(str_of ''nickname'', JStr (str_of ''someone''))])]"

text \<open>The same body without \<open>author.nickname\<close>.\<close>

definition partial_detail :: json where
  "partial_detail =
     JDict [(str_of ''aweme_id'', JStr (str_of ''999'')), (str_of ''desc'', JStr (str_of ''a clip'')),
            (str_of ''video'', JDict [(str_of ''play_addr'', JDict [(str_of ''url_list'',
               JList [JStr (str_of ''https://cdn.example/v.mp4'')])])]),
            (str_of ''author'', JDict [])]"

text \<open>A body with the expected keys whose \<open>desc\<close> is \<open>null\<close>.\<close>

definition null_desc_detail :: json where
  "null_desc_detail =
     JDict [(str_of ''aweme_id'', JStr (str_of ''999'')), (str_of ''desc'', JNone),
            (str_of ''video'', JDict [(str_of ''play_addr'', JDict [(str_of ''url_list'',
               JList [JStr (str_of ''https://cdn.example/v.mp4'')])])]),
            (str_of ''author'', JDict [(str_of ''nickname'', JStr (str_of ''someone''))])]"

text \<open>No browser; the short link redirects to a page of video 999; the detail API answers
  with the given status and body.\<close>

definition plain_env :: "int \<Rightarrow> pystr + json \<Rightarrow> env" where
  "plain_env status body =
     \<lparr>PLAYWRIGHT_AVAILABLE = False,
      redirect_get = (\<lambda>u. Inr (str_of ''https://www.douyin.com/video/999?x=1'')),
      api_get = (\<lambda>u. Inr \<lparr>status_code = status, response_json = body\<rparr>),
      browser = (\<lambda>u. broken_browser)\<rparr>"

text \<open>No browser and no network at all.\<close>

definition offline_env :: env where
  "offline_env =
     \<lparr>PLAYWRIGHT_AVAILABLE = False,
      redirect_get = (\<lambda>u. Inl (str_of ''connection refused'')),
      api_get = (\<lambda>u. Inl (str_of ''connection refused'')),
      browser = (\<lambda>u. broken_browser)\<rparr>"

text \<open>No browser, and a client that raises on every request, as it does for a URL without
  a protocol.\<close>

definition refusing_env :: env where
  "refusing_env =
     \<lparr>PLAYWRIGHT_AVAILABLE = False,
      redirect_get = (\<lambda>u. Inl (str_of ''Request URL is missing a protocol'')),
      api_get = (\<lambda>u. Inl (str_of ''Request URL is missing a protocol'')),
      browser = (\<lambda>u. broken_browser)\<rparr>"

section \<open>Literals\<close>

lemma str_of_eq_iff [simp]: "str_of a = str_of b \<longleftrightarrow> a = b"
  by (simp add: str_of_def inj_map_eq_map inj_def)

lemma str_of_append: "str_of a @ str_of b = str_of (a @ b)"
  by (simp add: str_of_def)

section \<open>How the searches relate to the forms\<close>

lemma lit_then_run_Some_iff:
  "lit_then_run lit cls s = Some r \<longleftrightarrow>
     (\<exists>post. s = lit @ r @ post \<and> r \<noteq> [] \<and> list_all cls r \<and> (post = [] \<or> \<not> cls (hd post)))"
proof
  assume h: "lit_then_run lit cls s = Some r"
  then have p: "prefix lit s" and r: "r = takeWhile cls (drop (length lit) s)" and ne: "r \<noteq> []"
    by (auto simp: lit_then_run_def Let_def split: if_splits)
  from p obtain rest where s: "s = lit @ rest" by (auto simp: prefix_def)
  have rest: "rest = r @ dropWhile cls rest" using r s by simp
  have "list_all cls r" using r by (simp add: list_all_iff) (meson set_takeWhileD)
  moreover have "dropWhile cls rest = [] \<or> \<not> cls (hd (dropWhile cls rest))"
    using hd_dropWhile by blast
  ultimately show "\<exists>post. s = lit @ r @ post \<and> r \<noteq> [] \<and> list_all cls r \<and> (post = [] \<or> \<not> cls (hd post))"
    using s rest ne by metis
next
  assume "\<exists>post. s = lit @ r @ post \<and> r \<noteq> [] \<and> list_all cls r \<and> (post = [] \<or> \<not> cls (hd post))"
  then obtain post where s: "s = lit @ r @ post" and ne: "r \<noteq> []" and a: "list_all cls r"
    and m: "post = [] \<or> \<not> cls (hd post)" by blast
  have "takeWhile cls (r @ post) = r"
  proof (cases post)
    case Nil
    then show ?thesis using a by (simp add: list_all_iff)
  next
    case (Cons c cs)
    then show ?thesis using a m by (simp add: list_all_iff takeWhile_append2)
  qed
  then show "lit_then_run lit cls s = Some r"
    using s ne by (simp add: lit_then_run_def)
qed

lemma lit_then_run_None_iff:
  "lit_then_run lit cls s = None \<longleftrightarrow> \<not> (\<exists>c post. s = lit @ c # post \<and> cls c)"
proof -
  have "lit_then_run lit cls s \<noteq> None \<longleftrightarrow> (\<exists>c post. s = lit @ c # post \<and> cls c)"
  proof
    assume "lit_then_run lit cls s \<noteq> None"
    then obtain r where "lit_then_run lit cls s = Some r" by blast
    then obtain post where "s = lit @ r @ post" "r \<noteq> []" "list_all cls r"
      unfolding lit_then_run_Some_iff by blast
    then show "\<exists>c post. s = lit @ c # post \<and> cls c"
      by (cases r) auto
  next
    assume "\<exists>c post. s = lit @ c # post \<and> cls c"
    then show "lit_then_run lit cls s \<noteq> None"
      by (auto simp: lit_then_run_def)
  qed
  then show ?thesis by blast
qed

lemma re_search_None_iff:
  "re_search m s = None \<longleftrightarrow> (\<forall>pre t. s = pre @ t \<longrightarrow> m t = None)"
proof (induction s)
  case Nil
  then show ?case by simp
next
  case (Cons c cs)
  show ?case
  proof
    assume h: "re_search m (c # cs) = None"
    then have here: "m (c # cs) = None" and later: "re_search m cs = None"
      by (auto split: option.splits)
    show "\<forall>pre t. c # cs = pre @ t \<longrightarrow> m t = None"
    proof (intro allI impI)
      fix pre t assume e: "c # cs = pre @ t"
      show "m t = None"
      proof (cases pre)
        case Nil
        then show ?thesis using e here by simp
      next
        case (Cons p ps)
        then have "cs = ps @ t" using e by simp
        then show ?thesis using later Cons.IH by blast
      qed
    qed
  next
    assume h: "\<forall>pre t. c # cs = pre @ t \<longrightarrow> m t = None"
    then have here: "m (c # cs) = None" by (metis append_Nil)
    have "\<forall>pre t. cs = pre @ t \<longrightarrow> m t = None"
      using h by (metis append_Cons)
    then have "re_search m cs = None" using Cons.IH by blast
    then show "re_search m (c # cs) = None" using here by simp
  qed
qed

lemma re_search_Some_iff:
  "re_search m s = Some r \<longleftrightarrow>
     (\<exists>pre t. s = pre @ t \<and> m t = Some r \<and>
        (\<forall>pre' t'. s = pre' @ t' \<and> length pre' < length pre \<longrightarrow> m t' = None))"
proof (induction s)
  case Nil
  then show ?case by auto
next
  case (Cons c cs)
  show ?case
  proof (cases "m (c # cs)")
    case (Some r0)
    have "(\<exists>pre t. c # cs = pre @ t \<and> m t = Some r \<and>
        (\<forall>pre' t'. c # cs = pre' @ t' \<and> length pre' < length pre \<longrightarrow> m t' = None)) \<longleftrightarrow> r0 = r"
    proof
      assume "\<exists>pre t. c # cs = pre @ t \<and> m t = Some r \<and>
        (\<forall>pre' t'. c # cs = pre' @ t' \<and> length pre' < length pre \<longrightarrow> m t' = None)"
      then obtain pre t where e: "c # cs = pre @ t" and mt: "m t = Some r"
        and first: "\<forall>pre' t'. c # cs = pre' @ t' \<and> length pre' < length pre \<longrightarrow> m t' = None"
        by blast
      have "pre = []"
      proof (rule ccontr)
        assume "pre \<noteq> []"
        then have "length [] < length pre" by simp
        then have "m (c # cs) = None" using first by (metis append_Nil)
        then show False using Some by simp
      qed
      then show "r0 = r" using e mt Some by simp
    next
      assume "r0 = r"
      then have "c # cs = [] @ (c # cs) \<and> m (c # cs) = Some r \<and>
        (\<forall>pre' t'. c # cs = pre' @ t' \<and> length pre' < length ([]::pystr) \<longrightarrow> m t' = None)"
        using Some by simp
      then show "\<exists>pre t. c # cs = pre @ t \<and> m t = Some r \<and>
        (\<forall>pre' t'. c # cs = pre' @ t' \<and> length pre' < length pre \<longrightarrow> m t' = None)"
        by blast
    qed
    then show ?thesis using Some by simp
  next
    case None
    have "(\<exists>pre t. c # cs = pre @ t \<and> m t = Some r \<and>
        (\<forall>pre' t'. c # cs = pre' @ t' \<and> length pre' < length pre \<longrightarrow> m t' = None)) \<longleftrightarrow>
      (\<exists>pre t. cs = pre @ t \<and> m t = Some r \<and>
        (\<forall>pre' t'. cs = pre' @ t' \<and> length pre' < length pre \<longrightarrow> m t' = None))"
      (is "?L \<longleftrightarrow> ?R")
    proof
      assume ?L
      then obtain pre t where e: "c # cs = pre @ t" and mt: "m t = Some r"
        and first: "\<forall>pre' t'. c # cs = pre' @ t' \<and> length pre' < length pre \<longrightarrow> m t' = None"
        by blast
      have "pre \<noteq> []" using e mt None by auto
      then obtain ps where pre: "pre = c # ps" using e by (cases pre) auto
      then have e': "cs = ps @ t" using e by simp
      have "\<forall>pre' t'. cs = pre' @ t' \<and> length pre' < length ps \<longrightarrow> m t' = None"
      proof (intro allI impI)
        fix pre' t' assume a: "cs = pre' @ t' \<and> length pre' < length ps"
        then have "c # cs = (c # pre') @ t' \<and> length (c # pre') < length pre"
          using pre by simp
        then show "m t' = None" using first by blast
      qed
      then show ?R using e' mt by blast
    next
      assume ?R
      then obtain ps t where e: "cs = ps @ t" and mt: "m t = Some r"
        and first: "\<forall>pre' t'. cs = pre' @ t' \<and> length pre' < length ps \<longrightarrow> m t' = None"
        by blast
      have "\<forall>pre' t'. c # cs = pre' @ t' \<and> length pre' < length (c # ps) \<longrightarrow> m t' = None"
      proof (intro allI impI)
        fix pre' t' assume a: "c # cs = pre' @ t' \<and> length pre' < length (c # ps)"
        show "m t' = None"
        proof (cases pre')
          case Nil
          then show ?thesis using a None by simp
        next
          case (Cons q qs)
          then have "cs = qs @ t' \<and> length qs < length ps" using a by simp
          then show ?thesis using first by blast
        qed
      qed
      moreover have "c # cs = (c # ps) @ t" using e by simp
      ultimately show ?L using mt by blast
    qed
    then show ?thesis using None Cons.IH by simp
  qed
qed


lemma starts_with_form_iff:
  "starts_with_form lit cls t \<longleftrightarrow> lit_then_run lit cls t \<noteq> None"
  by (simp add: starts_with_form_def lit_then_run_None_iff)

lemma re_search_None_has_form:
  assumes m: "\<And>t. m t = None \<longleftrightarrow> (\<forall>lit \<in> set lits. lit_then_run lit cls t = None)"
  shows "re_search m s = None \<longleftrightarrow> \<not> has_form lits cls s"
proof
  assume h: "re_search m s = None"
  show "\<not> has_form lits cls s"
  proof
    assume "has_form lits cls s"
    then obtain pre t lit where s: "s = pre @ t" and lit: "lit \<in> set lits"
      and st: "starts_with_form lit cls t"
      unfolding has_form_def by blast
    from h s have "m t = None" unfolding re_search_None_iff by blast
    then have "lit_then_run lit cls t = None" using m lit by blast
    then show False using st by (simp add: starts_with_form_iff)
  qed
next
  assume h: "\<not> has_form lits cls s"
  have "\<forall>pre t. s = pre @ t \<longrightarrow> m t = None"
  proof (intro allI impI)
    fix pre t assume s: "s = pre @ t"
    have "\<forall>lit \<in> set lits. lit_then_run lit cls t = None"
    proof
      fix lit assume lit: "lit \<in> set lits"
      have "\<not> starts_with_form lit cls t"
        using h s lit unfolding has_form_def by blast
      then show "lit_then_run lit cls t = None" by (simp add: starts_with_form_iff)
    qed
    then show "m t = None" using m by blast
  qed
  then show "re_search m s = None" unfolding re_search_None_iff .
qed

lemma re_search_Some_leftmost:
  assumes none: "\<And>t. m t = None \<longleftrightarrow> (\<forall>lit \<in> set lits. lit_then_run lit cls t = None)"
    and some: "\<And>t x. m t = Some x \<Longrightarrow>
                 \<exists>lit r. lit \<in> set lits \<and> P lit r x \<and> lit_then_run lit cls t = Some r"
    and found: "re_search m s = Some x"
  shows "\<exists>lit r. P lit r x \<and> leftmost_run lits cls s lit r"
proof -
  from found obtain pre t where s: "s = pre @ t" and mt: "m t = Some x"
    and first: "\<forall>pre' t'. s = pre' @ t' \<and> length pre' < length pre \<longrightarrow> m t' = None"
    unfolding re_search_Some_iff by blast
  from some [OF mt] obtain lit r where lit: "lit \<in> set lits" and P: "P lit r x"
    and run: "lit_then_run lit cls t = Some r" by blast
  from run obtain post where t: "t = lit @ r @ post" and ne: "r \<noteq> []" and a: "list_all cls r"
    and mx: "post = [] \<or> \<not> cls (hd post)"
    unfolding lit_then_run_Some_iff by blast
  have early: "\<forall>pre' t'. s = pre' @ t' \<and> length pre' < length pre \<longrightarrow>
          \<not> (\<exists>l. l \<in> set lits \<and> starts_with_form l cls t')"
  proof (intro allI impI notI)
    fix pre' t' assume a: "s = pre' @ t' \<and> length pre' < length pre"
      and "\<exists>l. l \<in> set lits \<and> starts_with_form l cls t'"
    then obtain l where l: "l \<in> set lits" and st: "starts_with_form l cls t'" by blast
    from a first have "m t' = None" by blast
    then have "lit_then_run l cls t' = None" using none l by blast
    then show False using st by (simp add: starts_with_form_iff)
  qed
  have "s = pre @ lit @ r @ post" using s t by simp
  then have "\<exists>pre post. s = pre @ lit @ r @ post \<and> r \<noteq> [] \<and> list_all cls r \<and>
         (post = [] \<or> \<not> cls (hd post)) \<and>
         (\<forall>pre' t'. s = pre' @ t' \<and> length pre' < length pre \<longrightarrow>
            \<not> (\<exists>l. l \<in> set lits \<and> starts_with_form l cls t'))"
    using ne a mx early by blast
  then have "leftmost_run lits cls s lit r"
    unfolding leftmost_run_def using lit by simp
  then show ?thesis using P by blast
qed

text \<open>A literal followed by its longest run, with no earlier place where the literal is
  followed by a character of the class, is what the search finds.\<close>

lemma re_search_at_first:
  assumes s: "s = pre @ lit @ r @ post" and ne: "r \<noteq> []" and a: "list_all cls r"
    and mx: "post = [] \<or> \<not> cls (hd post)"
    and first: "\<not> has_form [lit] cls (pre @ lit)"
  shows "re_search (lit_then_run lit cls) s = Some r"
proof -
  have here: "lit_then_run lit cls (lit @ r @ post) = Some r"
    unfolding lit_then_run_Some_iff using ne a mx by blast
  have early: "\<forall>pre' t'. s = pre' @ t' \<and> length pre' < length pre \<longrightarrow>
                 lit_then_run lit cls t' = None"
  proof (intro allI impI)
    fix pre' t' assume h: "s = pre' @ t' \<and> length pre' < length pre"
    show "lit_then_run lit cls t' = None"
    proof (rule ccontr)
      assume "lit_then_run lit cls t' \<noteq> None"
      then have "\<exists>c rest. t' = lit @ c # rest \<and> cls c"
        by (simp add: lit_then_run_None_iff)
      then obtain c rest where t': "t' = lit @ c # rest" and c: "cls c"
        by blast
      obtain k where k: "length pre = length pre' + Suc k"
        using h by (metis less_iff_Suc_add add_Suc_right)
      have "take (length pre' + Suc k + length lit) s = pre @ lit" using s k by simp
      moreover have "take (length pre' + Suc k + length lit) s = pre' @ lit @ c # take k rest"
        using h t' by simp
      ultimately have "pre @ lit = pre' @ (lit @ c # take k rest)"
        by simp
      moreover have "starts_with_form lit cls (lit @ c # take k rest)"
        unfolding starts_with_form_def using c by blast
      ultimately have "has_form [lit] cls (pre @ lit)"
        unfolding has_form_def by (metis list.set_intros(1))
      then show False using first by simp
    qed
  qed
  show ?thesis
    unfolding re_search_Some_iff using s here early by blast
qed

lemma video_pattern_at_None:
  "video_pattern_at nd t = None \<longleftrightarrow> (\<forall>lit \<in> set [str_of ''/video/'', str_of ''/note/'']. lit_then_run lit (is_digit nd) t = None)"
  by (auto simp: video_pattern_at_def split: option.splits)

lemma video_pattern_at_Some:
  "video_pattern_at nd t = Some r \<Longrightarrow>
     \<exists>lit r'. lit \<in> set [str_of ''/video/'', str_of ''/note/''] \<and> r = r' \<and> lit_then_run lit (is_digit nd) t = Some r'"
  by (auto simp: video_pattern_at_def split: option.splits)

lemma aweme_pattern_at_None:
  "aweme_pattern_at nd t = None \<longleftrightarrow> (\<forall>lit \<in> set [str_of ''aweme_id='']. lit_then_run lit (is_digit nd) t = None)"
  by (simp add: aweme_pattern_at_def)

lemma aweme_pattern_at_Some:
  "aweme_pattern_at nd t = Some r \<Longrightarrow>
     \<exists>lit r'. lit \<in> set [str_of ''aweme_id=''] \<and> r = r' \<and> lit_then_run lit (is_digit nd) t = Some r'"
  by (simp add: aweme_pattern_at_def)

lemma vid_pattern_at_None:
  "vid_pattern_at nd t = None \<longleftrightarrow> (\<forall>lit \<in> set [str_of ''vid='']. lit_then_run lit (is_digit nd) t = None)"
  by (simp add: vid_pattern_at_def)

lemma vid_pattern_at_Some:
  "vid_pattern_at nd t = Some r \<Longrightarrow>
     \<exists>lit r'. lit \<in> set [str_of ''vid=''] \<and> r = r' \<and> lit_then_run lit (is_digit nd) t = Some r'"
  by (simp add: vid_pattern_at_def)

lemma video_search_None: "re_search (video_pattern_at nd) url = None \<longleftrightarrow> \<not> has_path_form nd url"
  unfolding has_path_form_def by (rule re_search_None_has_form) (rule video_pattern_at_None)

lemma aweme_search_None: "re_search (aweme_pattern_at nd) url = None \<longleftrightarrow> \<not> has_aweme_form nd url"
  unfolding has_aweme_form_def by (rule re_search_None_has_form) (rule aweme_pattern_at_None)

lemma vid_search_None: "re_search (vid_pattern_at nd) url = None \<longleftrightarrow> \<not> has_vid_form nd url"
  unfolding has_vid_form_def by (rule re_search_None_has_form) (rule vid_pattern_at_None)

lemma video_search_Some:
  "re_search (video_pattern_at nd) url = Some d \<Longrightarrow>
     \<exists>lit. leftmost_run [str_of ''/video/'', str_of ''/note/''] (is_digit nd) url lit d"
  using re_search_Some_leftmost [where P = "\<lambda>lit r x. x = r", OF video_pattern_at_None [of nd] video_pattern_at_Some [of nd]]
  by blast

lemma aweme_search_Some:
  "re_search (aweme_pattern_at nd) url = Some d \<Longrightarrow> leftmost_run [str_of ''aweme_id=''] (is_digit nd) url (str_of ''aweme_id='') d"
  using re_search_Some_leftmost [where P = "\<lambda>lit r x. x = r", OF aweme_pattern_at_None [of nd] aweme_pattern_at_Some [of nd], of url d]
  by (auto simp: leftmost_run_def)

lemma vid_search_Some:
  "re_search (vid_pattern_at nd) url = Some d \<Longrightarrow> leftmost_run [str_of ''vid=''] (is_digit nd) url (str_of ''vid='') d"
  using re_search_Some_leftmost [where P = "\<lambda>lit r x. x = r", OF vid_pattern_at_None [of nd] vid_pattern_at_Some [of nd], of url d]
  by (auto simp: leftmost_run_def)

text \<open>The forms, decided by running the searches.\<close>

lemma has_path_form_search: "has_path_form nd url \<longleftrightarrow> re_search (video_pattern_at nd) url \<noteq> None"
  by (simp add: video_search_None)

lemma has_aweme_form_search: "has_aweme_form nd url \<longleftrightarrow> re_search (aweme_pattern_at nd) url \<noteq> None"
  by (simp add: aweme_search_None)

lemma has_vid_form_search: "has_vid_form nd url \<longleftrightarrow> re_search (vid_pattern_at nd) url \<noteq> None"
  by (simp add: vid_search_None)

lemmas search_eval =
  has_path_form_search has_aweme_form_search has_vid_form_search
  extract_video_id_def video_pattern_at_def aweme_pattern_at_def vid_pattern_at_def
  lit_then_run_def is_digit_def fullwidth_digit_def str_of_def

section \<open>Identifier Extractor\<close>

text \<open>
  Claim C2. \<open>extract_video_id\<close> tries the three patterns in a fixed order and the first one
  that matches anywhere in the URL wins: when a path form \<open>/video/<digits>\<close> or
  \<open>/note/<digits>\<close> is present, the result is the digits of the leftmost path form, whatever
  query forms are present; otherwise, when \<open>aweme_id=<digits>\<close> is present, the result is
  its digits, whether or not \<open>vid=<digits>\<close> is present too; otherwise, when \<open>vid=<digits>\<close>
  is present, its digits. The result is \<open>None\<close> exactly when none of the three forms is
  present. A digit is a code point that \<open>\d\<close> matches, and the digits returned are the
  longest run of them.
\<close>

theorem extract_video_id_priority:
  "(has_path_form nd url \<longrightarrow>
      (\<exists>lit d. extract_video_id nd url = Some d \<and>
         leftmost_run [str_of ''/video/'', str_of ''/note/''] (is_digit nd) url lit d)) \<and>
   (\<not> has_path_form nd url \<and> has_aweme_form nd url \<longrightarrow>
      (\<exists>d. extract_video_id nd url = Some d \<and>
         leftmost_run [str_of ''aweme_id=''] (is_digit nd) url (str_of ''aweme_id='') d)) \<and>
   (\<not> has_path_form nd url \<and> \<not> has_aweme_form nd url \<and> has_vid_form nd url \<longrightarrow>
      (\<exists>d. extract_video_id nd url = Some d \<and>
         leftmost_run [str_of ''vid=''] (is_digit nd) url (str_of ''vid='') d)) \<and>
   (extract_video_id nd url = None \<longleftrightarrow>
      \<not> has_path_form nd url \<and> \<not> has_aweme_form nd url \<and> \<not> has_vid_form nd url)"
proof (intro conjI impI)
  assume "has_path_form nd url"
  then obtain d where d: "re_search (video_pattern_at nd) url = Some d"
    using video_search_None [of nd url] by auto
  then have "extract_video_id nd url = Some d" by (simp add: extract_video_id_def)
  then show "\<exists>lit d. extract_video_id nd url = Some d \<and>
         leftmost_run [str_of ''/video/'', str_of ''/note/''] (is_digit nd) url lit d"
    using video_search_Some [OF d] by blast
next
  assume "\<not> has_path_form nd url \<and> has_aweme_form nd url"
  then have v: "re_search (video_pattern_at nd) url = None" and "re_search (aweme_pattern_at nd) url \<noteq> None"
    using video_search_None [of nd url] aweme_search_None [of nd url] by auto
  then obtain d where d: "re_search (aweme_pattern_at nd) url = Some d" by auto
  then have "extract_video_id nd url = Some d" using v by (simp add: extract_video_id_def)
  then show "\<exists>d. extract_video_id nd url = Some d \<and>
         leftmost_run [str_of ''aweme_id=''] (is_digit nd) url (str_of ''aweme_id='') d"
    using aweme_search_Some [OF d] by blast
next
  assume "\<not> has_path_form nd url \<and> \<not> has_aweme_form nd url \<and> has_vid_form nd url"
  then have v: "re_search (video_pattern_at nd) url = None" and a: "re_search (aweme_pattern_at nd) url = None"
    and "re_search (vid_pattern_at nd) url \<noteq> None"
    using video_search_None [of nd url] aweme_search_None [of nd url] vid_search_None [of nd url] by auto
  then obtain d where d: "re_search (vid_pattern_at nd) url = Some d" by auto
  then have "extract_video_id nd url = Some d" using v a by (simp add: extract_video_id_def)
  then show "\<exists>d. extract_video_id nd url = Some d \<and>
         leftmost_run [str_of ''vid=''] (is_digit nd) url (str_of ''vid='') d"
    using vid_search_Some [OF d] by blast
next
  show "extract_video_id nd url = None \<longleftrightarrow>
      \<not> has_path_form nd url \<and> \<not> has_aweme_form nd url \<and> \<not> has_vid_form nd url"
    using video_search_None [of nd url] aweme_search_None [of nd url] vid_search_None [of nd url]
    by (auto simp: extract_video_id_def split: option.splits)
qed

theorem extract_video_id_priority_witness:
  "has_path_form fullwidth_digit (str_of ''https://www.douyin.com/video/12345?aweme_id=111&vid=222'') \<and>
   extract_video_id fullwidth_digit (str_of ''https://www.douyin.com/video/12345?aweme_id=111&vid=222'') = Some (str_of ''12345'') \<and>
   (\<exists>lit. leftmost_run [str_of ''/video/'', str_of ''/note/''] (is_digit fullwidth_digit)
            (str_of ''https://www.douyin.com/video/12345?aweme_id=111&vid=222'') lit (str_of ''12345'')) \<and>
   has_path_form fullwidth_digit (str_of ''https://www.douyin.com/note/67890'') \<and>
   extract_video_id fullwidth_digit (str_of ''https://www.douyin.com/note/67890'') = Some (str_of ''67890'') \<and>
   has_aweme_form fullwidth_digit (str_of ''https://www.douyin.com/x?vid=222&aweme_id=111'') \<and>
   extract_video_id fullwidth_digit (str_of ''https://www.douyin.com/x?vid=222&aweme_id=111'') = Some (str_of ''111'') \<and>
   leftmost_run [str_of ''aweme_id=''] (is_digit fullwidth_digit) (str_of ''https://www.douyin.com/x?vid=222&aweme_id=111'')
     (str_of ''aweme_id='') (str_of ''111'') \<and>
   has_vid_form fullwidth_digit (str_of ''https://www.douyin.com/x?vid=222'') \<and>
   extract_video_id fullwidth_digit (str_of ''https://www.douyin.com/x?vid=222'') = Some (str_of ''222'') \<and>
   leftmost_run [str_of ''vid=''] (is_digit fullwidth_digit) (str_of ''https://www.douyin.com/x?vid=222'') (str_of ''vid='') (str_of ''222'') \<and>
   extract_video_id fullwidth_digit (str_of ''https://www.douyin.com/'') = None \<and>
   has_path_form fullwidth_digit (str_of ''/video/'' @ [65297, 65298, 65299] @ str_of ''?aweme_id=5'') \<and>
   extract_video_id fullwidth_digit (str_of ''/video/'' @ [65297, 65298, 65299] @ str_of ''?aweme_id=5'') =
     Some [65297, 65298, 65299]"
proof -
  have p1: "has_path_form fullwidth_digit (str_of ''https://www.douyin.com/video/12345?aweme_id=111&vid=222'')"
    by (simp add: search_eval)
  have e1: "extract_video_id fullwidth_digit (str_of ''https://www.douyin.com/video/12345?aweme_id=111&vid=222'') = Some (str_of ''12345'')"
    by (simp add: search_eval)
  have l1: "\<exists>lit. leftmost_run [str_of ''/video/'', str_of ''/note/''] (is_digit fullwidth_digit)
            (str_of ''https://www.douyin.com/video/12345?aweme_id=111&vid=222'') lit (str_of ''12345'')"
    using extract_video_id_priority [of fullwidth_digit "(str_of ''https://www.douyin.com/video/12345?aweme_id=111&vid=222'')"] p1 e1
    by auto
  have p2: "has_path_form fullwidth_digit (str_of ''https://www.douyin.com/note/67890'')"
    by (simp add: search_eval)
  have e2: "extract_video_id fullwidth_digit (str_of ''https://www.douyin.com/note/67890'') = Some (str_of ''67890'')"
    by (simp add: search_eval)
  have n3: "\<not> has_path_form fullwidth_digit (str_of ''https://www.douyin.com/x?vid=222&aweme_id=111'')"
    and a3: "has_aweme_form fullwidth_digit (str_of ''https://www.douyin.com/x?vid=222&aweme_id=111'')"
    by (simp_all add: search_eval)
  have e3: "extract_video_id fullwidth_digit (str_of ''https://www.douyin.com/x?vid=222&aweme_id=111'') = Some (str_of ''111'')"
    by (simp add: search_eval)
  have l3: "leftmost_run [str_of ''aweme_id=''] (is_digit fullwidth_digit) (str_of ''https://www.douyin.com/x?vid=222&aweme_id=111'')
     (str_of ''aweme_id='') (str_of ''111'')"
    using extract_video_id_priority [of fullwidth_digit "(str_of ''https://www.douyin.com/x?vid=222&aweme_id=111'')"] n3 a3 e3
    by auto
  have n4: "\<not> has_path_form fullwidth_digit (str_of ''https://www.douyin.com/x?vid=222'')"
    and a4: "\<not> has_aweme_form fullwidth_digit (str_of ''https://www.douyin.com/x?vid=222'')"
    and v4: "has_vid_form fullwidth_digit (str_of ''https://www.douyin.com/x?vid=222'')"
    by (simp_all add: search_eval)
  have e4: "extract_video_id fullwidth_digit (str_of ''https://www.douyin.com/x?vid=222'') = Some (str_of ''222'')"
    by (simp add: search_eval)
  have l4: "leftmost_run [str_of ''vid=''] (is_digit fullwidth_digit) (str_of ''https://www.douyin.com/x?vid=222'') (str_of ''vid='') (str_of ''222'')"
    using extract_video_id_priority [of fullwidth_digit "(str_of ''https://www.douyin.com/x?vid=222'')"] n4 a4 v4 e4
    by auto
  have n5: "\<not> has_path_form fullwidth_digit (str_of ''https://www.douyin.com/'')"
    and a5: "\<not> has_aweme_form fullwidth_digit (str_of ''https://www.douyin.com/'')"
    and v5: "\<not> has_vid_form fullwidth_digit (str_of ''https://www.douyin.com/'')"
    by (simp_all add: search_eval)
  have e5: "extract_video_id fullwidth_digit (str_of ''https://www.douyin.com/'') = None"
    using extract_video_id_priority [of fullwidth_digit "(str_of ''https://www.douyin.com/'')"] n5 a5 v5 by blast
  have p6: "has_path_form fullwidth_digit (str_of ''/video/'' @ [65297, 65298, 65299] @ str_of ''?aweme_id=5'')"
    by (simp add: search_eval)
  have "\<exists>lit d. extract_video_id fullwidth_digit
            (str_of ''/video/'' @ [65297, 65298, 65299] @ str_of ''?aweme_id=5'') = Some d \<and>
          leftmost_run [str_of ''/video/'', str_of ''/note/''] (is_digit fullwidth_digit)
            (str_of ''/video/'' @ [65297, 65298, 65299] @ str_of ''?aweme_id=5'') lit d"
    using extract_video_id_priority
      [of fullwidth_digit "str_of ''/video/'' @ [65297, 65298, 65299] @ str_of ''?aweme_id=5''",
       THEN conjunct1, THEN mp, OF p6] .
  have e6: "extract_video_id fullwidth_digit (str_of ''/video/'' @ [65297, 65298, 65299] @ str_of ''?aweme_id=5'') =
     Some [65297, 65298, 65299]"
    by (simp add: search_eval)
  show ?thesis
    using p1 e1 l1 p2 e2 a3 e3 l3 v4 e4 l4 e5 p6 e6 by (intro conjI)
qed

text \<open>The short-link search.\<close>

lemma short_link_at_None:
  "short_link_at t = None \<longleftrightarrow>
     (\<forall>lit \<in> set [str_of ''https://v.douyin.com/'', str_of ''http://v.douyin.com/'']. lit_then_run lit is_alnum t = None)"
  by (auto simp: short_link_at_def split: option.splits)

lemma short_link_at_Some:
  "short_link_at t = Some x \<Longrightarrow>
     \<exists>lit r. lit \<in> set [str_of ''https://v.douyin.com/'', str_of ''http://v.douyin.com/''] \<and> x = lit @ r \<and>
       lit_then_run lit is_alnum t = Some r"
  by (auto simp: short_link_at_def split: option.splits)

lemma short_search_None: "re_search short_link_at raw = None \<longleftrightarrow> \<not> has_short_link raw"
  unfolding has_short_link_def by (rule re_search_None_has_form) (rule short_link_at_None)

lemma short_search_Some:
  "re_search short_link_at raw = Some x \<Longrightarrow>
     \<exists>lit tok. x = lit @ tok \<and>
       leftmost_run [str_of ''https://v.douyin.com/'', str_of ''http://v.douyin.com/''] is_alnum raw lit tok"
  using re_search_Some_leftmost [where P = "\<lambda>lit r x. x = lit @ r", OF short_link_at_None short_link_at_Some]
  by blast

lemma has_short_link_search: "has_short_link raw \<longleftrightarrow> re_search short_link_at raw \<noteq> None"
  by (simp add: short_search_None)

lemmas clean_eval =
  has_short_link_search clean_url_def short_link_at_def lit_then_run_def is_alnum_def str_of_def

section \<open>URL Normalizer\<close>

text \<open>
  Claim C5. \<open>clean_url\<close> is total: no operation in it can raise. When the input contains a
  short link (scheme \<open>http\<close> or \<open>https\<close>, host \<open>v.douyin.com\<close>, an alphanumeric token), the
  result is that substring of the input and nothing of the surrounding text: the leftmost
  short link, with its token taken as long as it goes. Otherwise the result is the input
  unchanged, whether or not it begins with the canonical prefix.
\<close>

theorem clean_url_short_link_or_unchanged:
  "(has_short_link raw \<longrightarrow>
      (\<exists>lit tok pre post.
         clean_url raw = lit @ tok \<and> raw = pre @ clean_url raw @ post \<and>
         leftmost_run [str_of ''https://v.douyin.com/'', str_of ''http://v.douyin.com/''] is_alnum raw lit tok)) \<and>
   (\<not> has_short_link raw \<longrightarrow> clean_url raw = raw)"
proof (intro conjI impI)
  assume "has_short_link raw"
  then obtain x where x: "re_search short_link_at raw = Some x"
    using short_search_None [of raw] by auto
  then have c: "clean_url raw = x" by (simp add: clean_url_def)
  from short_search_Some [OF x] obtain lit tok where xe: "x = lit @ tok"
    and lm: "leftmost_run [str_of ''https://v.douyin.com/'', str_of ''http://v.douyin.com/''] is_alnum raw lit tok"
    by blast
  from lm obtain pre post where "raw = pre @ lit @ tok @ post"
    unfolding leftmost_run_def by blast
  then have "raw = pre @ clean_url raw @ post" using c xe by simp
  then show "\<exists>lit tok pre post.
         clean_url raw = lit @ tok \<and> raw = pre @ clean_url raw @ post \<and>
         leftmost_run [str_of ''https://v.douyin.com/'', str_of ''http://v.douyin.com/''] is_alnum raw lit tok"
    using c xe lm by blast
next
  assume "\<not> has_short_link raw"
  then have "re_search short_link_at raw = None" using short_search_None [of raw] by simp
  then show "clean_url raw = raw" by (simp add: clean_url_def)
qed

theorem clean_url_short_link_or_unchanged_witness:
  "has_short_link (str_of ''7.43 copy https://v.douyin.com/iJk3AbC/ and open Douyin'') \<and>
   clean_url (str_of ''7.43 copy https://v.douyin.com/iJk3AbC/ and open Douyin'') = (str_of ''https://v.douyin.com/iJk3AbC'') \<and>
   (\<exists>lit. leftmost_run [str_of ''https://v.douyin.com/'', str_of ''http://v.douyin.com/''] is_alnum
       (str_of ''7.43 copy https://v.douyin.com/iJk3AbC/ and open Douyin'') lit (str_of ''iJk3AbC'')) \<and>
   clean_url (str_of ''https://www.douyin.com/video/123'') = (str_of ''https://www.douyin.com/video/123'') \<and>
   clean_url (str_of ''not a url'') = str_of ''not a url''"
proof -
  have h1: "has_short_link (str_of ''7.43 copy https://v.douyin.com/iJk3AbC/ and open Douyin'')"
    by (simp add: clean_eval)
  have c1: "clean_url (str_of ''7.43 copy https://v.douyin.com/iJk3AbC/ and open Douyin'') = str_of ''https://v.douyin.com/iJk3AbC''"
    by (simp add: clean_eval)
  from clean_url_short_link_or_unchanged [of "(str_of ''7.43 copy https://v.douyin.com/iJk3AbC/ and open Douyin'')"] h1
  obtain lit tok where e: "clean_url (str_of ''7.43 copy https://v.douyin.com/iJk3AbC/ and open Douyin'') = lit @ tok"
    and lm: "leftmost_run [str_of ''https://v.douyin.com/'', str_of ''http://v.douyin.com/''] is_alnum
       (str_of ''7.43 copy https://v.douyin.com/iJk3AbC/ and open Douyin'') lit tok"
    by blast
  have "lit = (str_of ''https://v.douyin.com/'') \<or> lit = str_of ''http://v.douyin.com/''"
    using lm by (simp add: leftmost_run_def)
  then have "tok = str_of ''iJk3AbC''" using e c1 by (auto simp: str_of_def)
  then have l1: "\<exists>lit. leftmost_run [str_of ''https://v.douyin.com/'', str_of ''http://v.douyin.com/''] is_alnum
       (str_of ''7.43 copy https://v.douyin.com/iJk3AbC/ and open Douyin'') lit (str_of ''iJk3AbC'')"
    using lm by blast
  have n2: "\<not> has_short_link (str_of ''https://www.douyin.com/video/123'')"
    and n3: "\<not> has_short_link (str_of ''not a url'')"
    by (simp_all add: clean_eval)
  have c2: "clean_url (str_of ''https://www.douyin.com/video/123'') = str_of ''https://www.douyin.com/video/123''"
    using clean_url_short_link_or_unchanged [of "(str_of ''https://www.douyin.com/video/123'')"] n2 by blast
  have c3: "clean_url (str_of ''not a url'') = str_of ''not a url''"
    using clean_url_short_link_or_unchanged [of "(str_of ''not a url'')"] n3 by blast
  show ?thesis using h1 c1 l1 c2 c3 by blast
qed

section \<open>Identifier extraction is substring matching\<close>

text \<open>
  Claim C10. Extraction looks at the raw string, not at the structure of a URL: when no
  path form is present and the string is \<open>pre @ key @ d @ post\<close> with \<open>key\<close> one of
  \<open>aweme_id=\<close> and \<open>vid=\<close> (for \<open>vid=\<close>, with no \<open>aweme_id=<digits>\<close> present), \<open>d\<close> the whole
  run of digits (code points that \<open>\d\<close> matches) after this first such \<open>key\<close>, then \<open>extract_video_id\<close> returns \<open>d\<close>, whatever
  \<open>pre\<close> and \<open>post\<close> are: the tail of a longer parameter name, a fragment, or text that
  is no URL at all.
\<close>

theorem extract_video_id_substring_match:
  assumes "\<not> has_path_form nd url"
    and "url = pre @ key @ d @ post"
    and "d \<noteq> []" and "list_all (is_digit nd) d"
    and "post = [] \<or> \<not> (is_digit nd) (hd post)"
    and "\<not> has_form [key] (is_digit nd) (pre @ key)"
    and "key = (str_of ''aweme_id='') \<or> (key = (str_of ''vid='') \<and> \<not> has_aweme_form nd url)"
  shows "extract_video_id nd url = Some d"
proof -
  have found: "re_search (lit_then_run key (is_digit nd)) url = Some d"
    using assms(2-6) by (rule re_search_at_first)
  have v: "re_search (video_pattern_at nd) url = None"
    using assms(1) by (simp add: video_search_None)
  from assms(7) show ?thesis
  proof
    assume k: "key = str_of ''aweme_id=''"
    have "aweme_pattern_at nd = lit_then_run (str_of ''aweme_id='') (is_digit nd)"
      by (rule ext) (simp add: aweme_pattern_at_def)
    then have "re_search (aweme_pattern_at nd) url = Some d" using found k by simp
    then show ?thesis using v by (simp add: extract_video_id_def)
  next
    assume k: "key = (str_of ''vid='') \<and> \<not> has_aweme_form nd url"
    then have a: "re_search (aweme_pattern_at nd) url = None" by (simp add: aweme_search_None)
    have "vid_pattern_at nd = lit_then_run (str_of ''vid='') (is_digit nd)"
      by (rule ext) (simp add: vid_pattern_at_def)
    then have "re_search (vid_pattern_at nd) url = Some d" using found k by simp
    then show ?thesis using v a by (simp add: extract_video_id_def)
  qed
qed


theorem extract_video_id_substring_match_witness:
  "\<not> has_path_form fullwidth_digit (str_of ''https://example.com/?fake_aweme_id=123'') \<and>
   extract_video_id fullwidth_digit (str_of ''https://example.com/?fake_aweme_id=123'') = Some (str_of ''123'') \<and>
   \<not> has_path_form fullwidth_digit (str_of ''https://example.com/page#vid=42x'') \<and>
   \<not> has_aweme_form fullwidth_digit (str_of ''https://example.com/page#vid=42x'') \<and>
   extract_video_id fullwidth_digit (str_of ''https://example.com/page#vid=42x'') = Some (str_of ''42'') \<and>
   \<not> has_path_form fullwidth_digit (str_of ''x?aweme_id=5'' @ [65297]) \<and>
   extract_video_id fullwidth_digit (str_of ''x?aweme_id=5'' @ [65297]) = Some (str_of ''5'' @ [65297])"
proof -
  have p1: "\<not> has_path_form fullwidth_digit (str_of ''https://example.com/?fake_aweme_id=123'')"
    by (simp add: search_eval)
  have s1: "(str_of ''https://example.com/?fake_aweme_id=123'') =
      (str_of ''https://example.com/?fake_'') @ (str_of ''aweme_id='') @ (str_of ''123'') @ []"
    by (simp add: str_of_def)
  have d1: "(str_of ''123'') \<noteq> []" "list_all (is_digit fullwidth_digit) (str_of ''123'')" "[] = [] \<or> \<not> (is_digit fullwidth_digit) (hd [])"
    by (simp_all add: is_digit_def str_of_def)
  have "\<not> has_aweme_form fullwidth_digit (str_of ''https://example.com/?fake_aweme_id='')"
    by (simp add: search_eval)
  then have f1: "\<not> has_form [str_of ''aweme_id=''] (is_digit fullwidth_digit) ((str_of ''https://example.com/?fake_'') @ (str_of ''aweme_id=''))"
    by (simp add: has_aweme_form_def str_of_append)
  have k1: "(str_of ''aweme_id='') = (str_of ''aweme_id='') \<or>
      ((str_of ''aweme_id='') = (str_of ''vid='') \<and> \<not> has_aweme_form fullwidth_digit (str_of ''https://example.com/?fake_aweme_id=123''))"
    by simp
  have e1: "extract_video_id fullwidth_digit (str_of ''https://example.com/?fake_aweme_id=123'') = Some (str_of ''123'')"
    by (rule extract_video_id_substring_match [OF p1 s1 d1 f1 k1])
  have p2: "\<not> has_path_form fullwidth_digit (str_of ''https://example.com/page#vid=42x'')"
    and a2: "\<not> has_aweme_form fullwidth_digit (str_of ''https://example.com/page#vid=42x'')"
    by (simp_all add: search_eval)
  have s2: "(str_of ''https://example.com/page#vid=42x'') =
      (str_of ''https://example.com/page#'') @ (str_of ''vid='') @ (str_of ''42'') @ (str_of ''x'')"
    by (simp add: str_of_def)
  have d2: "(str_of ''42'') \<noteq> []" "list_all (is_digit fullwidth_digit) (str_of ''42'')" "(str_of ''x'') = [] \<or> \<not> (is_digit fullwidth_digit) (hd (str_of ''x''))"
    by (simp_all add: is_digit_def str_of_def)
  have "\<not> has_vid_form fullwidth_digit (str_of ''https://example.com/page#vid='')"
    by (simp add: search_eval)
  then have f2: "\<not> has_form [str_of ''vid=''] (is_digit fullwidth_digit) ((str_of ''https://example.com/page#'') @ (str_of ''vid=''))"
    by (simp add: has_vid_form_def str_of_append)
  have k2: "(str_of ''vid='') = (str_of ''aweme_id='') \<or>
      ((str_of ''vid='') = (str_of ''vid='') \<and> \<not> has_aweme_form fullwidth_digit (str_of ''https://example.com/page#vid=42x''))"
    using a2 by simp
  have e2: "extract_video_id fullwidth_digit (str_of ''https://example.com/page#vid=42x'') = Some (str_of ''42'')"
    by (rule extract_video_id_substring_match [OF p2 s2 d2 f2 k2])
  have p3: "\<not> has_path_form fullwidth_digit (str_of ''x?aweme_id=5'' @ [65297])"
    by (simp add: search_eval)
  have s3: "str_of ''x?aweme_id=5'' @ [65297] =
      str_of ''x?'' @ str_of ''aweme_id='' @ (str_of ''5'' @ [65297]) @ []"
    by (simp add: str_of_def)
  have d3: "str_of ''5'' @ [65297] \<noteq> []" "list_all (is_digit fullwidth_digit) (str_of ''5'' @ [65297])"
    "[] = [] \<or> \<not> (is_digit fullwidth_digit) (hd [])"
    by (simp_all add: is_digit_def fullwidth_digit_def str_of_def)
  have "\<not> has_aweme_form fullwidth_digit (str_of ''x?aweme_id='')"
    by (simp add: search_eval)
  then have f3: "\<not> has_form [str_of ''aweme_id=''] (is_digit fullwidth_digit) (str_of ''x?'' @ str_of ''aweme_id='')"
    by (simp add: has_aweme_form_def str_of_append)
  have k3: "str_of ''aweme_id='' = str_of ''aweme_id='' \<or>
      (str_of ''aweme_id='' = str_of ''vid='' \<and>
       \<not> has_aweme_form fullwidth_digit (str_of ''x?aweme_id=5'' @ [65297]))"
    by simp
  have e3: "extract_video_id fullwidth_digit (str_of ''x?aweme_id=5'' @ [65297]) = Some (str_of ''5'' @ [65297])"
    by (rule extract_video_id_substring_match [OF p3 s3 d3 f3 k3])
  show ?thesis using p1 e1 p2 a2 e2 p3 e3 by (intro conjI)
qed

section \<open>Sequencing and lookups\<close>

lemma and_then_Inl [simp]: "and_then (Inl e) f = Inl e"
  by (simp add: and_then_def)

lemma and_then_Inr [simp]: "and_then (Inr x) f = f x"
  by (simp add: and_then_def)

lemma and_then_eq_Inr:
  "and_then r f = Inr y \<longleftrightarrow> (\<exists>x. r = Inr x \<and> f x = Inr y)"
  by (cases r) simp_all

lemma library_call_Inl [simp]: "library_call (Inl msg) = Inl (LibraryError msg)"
  by (simp add: library_call_def)

lemma library_call_Inr [simp]: "library_call (Inr x) = Inr x"
  by (simp add: library_call_def)

lemma getitem_str_Inr_iff:
  "getitem_str v k = Inr w \<longleftrightarrow> (\<exists>kvs. v = JDict kvs \<and> map_of kvs k = Some w)"
  by (cases v) (auto split: option.splits)

lemma json_path_Cons_Some:
  "json_path v (k # ks) = Some x \<longleftrightarrow>
     (\<exists>kvs w. v = JDict kvs \<and> map_of kvs k = Some w \<and> json_path w ks = Some x)"
  by (cases v) (auto split: option.splits)

lemma json_path_step:
  assumes "json_path v (k # ks) = Some x"
  shows "\<exists>w. getitem_str v k = Inr w \<and> json_path w ks = Some x \<and>
             py_in k v = Inr True \<and> py_truthy v"
proof -
  from assms obtain kvs w where v: "v = JDict kvs" and m: "map_of kvs k = Some w"
    and p: "json_path w ks = Some x"
    unfolding json_path_Cons_Some by blast
  have "kvs \<noteq> []" using m by auto
  then show ?thesis using v m p by simp
qed

lemma getitem_str_json_path: "getitem_str v k = Inr w \<longleftrightarrow> json_path v [k] = Some w"
  by (simp add: getitem_str_Inr_iff json_path_Cons_Some)

text \<open>When the four lookups succeed, every key on the way is there and the list has a
  first element.\<close>

lemma detail_fields_Inr:
  assumes "detail_fields detail = Inr r"
  shows "json_path detail [str_of ''aweme_id''] = Some (aweme_id r) \<and>
         json_path detail [str_of ''desc''] = Some (desc r) \<and>
         (\<exists>l. json_path detail [str_of ''video'', str_of ''play_addr'', str_of ''url_list''] = Some l \<and>
              getitem_0 l = Inr (video_url r)) \<and>
         json_path detail [str_of ''author'', str_of ''nickname''] = Some (author r)"
proof -
  from assms obtain a d video play_addr url_list u au n where
    a: "getitem_str detail (str_of ''aweme_id'') = Inr a" and
    d: "getitem_str detail (str_of ''desc'') = Inr d" and
    v: "getitem_str detail (str_of ''video'') = Inr video" and
    p: "getitem_str video (str_of ''play_addr'') = Inr play_addr" and
    l: "getitem_str play_addr (str_of ''url_list'') = Inr url_list" and
    u: "getitem_0 url_list = Inr u" and
    au: "getitem_str detail (str_of ''author'') = Inr au" and
    n: "getitem_str au (str_of ''nickname'') = Inr n" and
    r: "r = \<lparr>aweme_id = a, desc = d, video_url = u, author = n\<rparr>"
    unfolding detail_fields_def and_then_eq_Inr by auto
  have "json_path detail [str_of ''video'', str_of ''play_addr'', str_of ''url_list''] = Some url_list"
    using v p l by (auto simp: getitem_str_Inr_iff)
  moreover have "json_path detail [str_of ''author'', str_of ''nickname''] = Some n"
    using au n by (auto simp: getitem_str_Inr_iff)
  ultimately show ?thesis
    using a d u r by (simp add: getitem_str_json_path)
qed

lemma detail_fields_well_formed:
  assumes "json_path detail [str_of ''aweme_id''] = Some a"
    and "json_path detail [str_of ''desc''] = Some d"
    and "json_path detail [str_of ''video'', str_of ''play_addr'', str_of ''url_list''] = Some (JList (u # us))"
    and "json_path detail [str_of ''author'', str_of ''nickname''] = Some n"
  shows "detail_fields detail = Inr \<lparr>aweme_id = a, desc = d, video_url = u, author = n\<rparr>"
proof -
  from assms(1) have a: "getitem_str detail (str_of ''aweme_id'') = Inr a"
    by (simp add: getitem_str_json_path)
  from assms(2) have d: "getitem_str detail (str_of ''desc'') = Inr d"
    by (simp add: getitem_str_json_path)
  from json_path_step [OF assms(3)] obtain video where
    v: "getitem_str detail (str_of ''video'') = Inr video" and
    v': "json_path video [str_of ''play_addr'', str_of ''url_list''] = Some (JList (u # us))" by blast
  from json_path_step [OF v'] obtain play_addr where
    p: "getitem_str video (str_of ''play_addr'') = Inr play_addr" and
    p': "json_path play_addr [str_of ''url_list''] = Some (JList (u # us))" by blast
  from p' have l: "getitem_str play_addr (str_of ''url_list'') = Inr (JList (u # us))"
    by (simp add: getitem_str_json_path)
  from json_path_step [OF assms(4)] obtain au where
    au: "getitem_str detail (str_of ''author'') = Inr au" and
    au': "json_path au [str_of ''nickname''] = Some n" by blast
  from au' have n: "getitem_str au (str_of ''nickname'') = Inr n"
    by (simp add: getitem_str_json_path)
  show ?thesis
    by (simp add: detail_fields_def a d v p l au n)
qed

lemma fetch_data_with_httpx_cases:
  "fst (fetch_data_with_httpx env url video_id) =
     (case fetch_try env url video_id of
        Inr r \<Rightarrow> Inr r
      | Inl e \<Rightarrow> Inr (error_record url video_id))"
  by (simp add: fetch_data_with_httpx_def split: sum.splits)

lemma fetch_data_with_httpx_returns:
  "\<exists>r. fst (fetch_data_with_httpx env url video_id) = Inr r"
  by (simp add: fetch_data_with_httpx_cases split: sum.splits)

section \<open>Redirect Resolver: soft failure\<close>

text \<open>
  Claim C6. \<open>follow_redirect\<close> never raises: when the request fails (timeout, DNS failure,
  connection refused: any exception of the client), it returns the short URL it was
  given, unchanged; when the request succeeds, it returns the string form of the final
  URL.
\<close>

theorem follow_redirect_soft_fail:
  "(redirect_get env short_url = Inl msg \<longrightarrow>
      fst (follow_redirect env short_url) = Inr short_url) \<and>
   (redirect_get env short_url = Inr final \<longrightarrow>
      fst (follow_redirect env short_url) = Inr final) \<and>
   (\<exists>r. fst (follow_redirect env short_url) = Inr r)"
  by (cases "redirect_get env short_url") (simp_all add: follow_redirect_def)

theorem follow_redirect_soft_fail_witness:
  "redirect_get offline_env (str_of ''https://v.douyin.com/ABC123'') = Inl (str_of ''connection refused'') \<and>
   fst (follow_redirect offline_env (str_of ''https://v.douyin.com/ABC123'')) = Inr (str_of ''https://v.douyin.com/ABC123'') \<and>
   redirect_get (plain_env 200 (Inr JNone)) (str_of ''https://v.douyin.com/ABC123'') =
     Inr (str_of ''https://www.douyin.com/video/999?x=1'') \<and>
   fst (follow_redirect (plain_env 200 (Inr JNone)) (str_of ''https://v.douyin.com/ABC123'')) =
     Inr (str_of ''https://www.douyin.com/video/999?x=1'')"
proof -
  have a: "redirect_get offline_env (str_of ''https://v.douyin.com/ABC123'') = Inl (str_of ''connection refused'')"
    by (simp add: offline_env_def)
  have b: "redirect_get (plain_env 200 (Inr JNone)) (str_of ''https://v.douyin.com/ABC123'') =
     Inr (str_of ''https://www.douyin.com/video/999?x=1'')"
    by (simp add: plain_env_def)
  have r1: "fst (follow_redirect offline_env (str_of ''https://v.douyin.com/ABC123'')) = Inr (str_of ''https://v.douyin.com/ABC123'')"
    by (rule follow_redirect_soft_fail [THEN conjunct1, THEN mp, OF a])
  have r2: "fst (follow_redirect (plain_env 200 (Inr JNone)) (str_of ''https://v.douyin.com/ABC123'')) =
     Inr (str_of ''https://www.douyin.com/video/999?x=1'')"
    by (rule follow_redirect_soft_fail [THEN conjunct2, THEN conjunct1, THEN mp, OF b])
  show ?thesis
    using a r1 b r2 by (intro conjI)
qed

section \<open>Lightweight Fetcher: placeholders\<close>

text \<open>
  Claim C3. \<open>fetch_data_with_httpx\<close> never raises to its caller. On a response with a
  status other than 200, and on a 200 whose body is a dictionary without the key
  \<open>aweme_detail\<close>, it returns the input identifier, the description
  \<open>Video Description Unavailable\<close>, the input URL and the author \<open>Unknown\<close>. On any exception
  inside the \<open>try\<close> (in particular a failed request, or a body that does not parse) it returns
  the same record with the description \<open>Error retrieving video details\<close>. The two
  descriptions differ.
\<close>

theorem fetch_data_with_httpx_never_raises:
  "(\<exists>r. fst (fetch_data_with_httpx env url video_id) = Inr r) \<and>
   (api_get env (api_url_of video_id) = Inr response \<and> status_code response \<noteq> 200 \<longrightarrow>
      fst (fetch_data_with_httpx env url video_id) =
        Inr \<lparr>aweme_id = JStr video_id, desc = JStr (str_of ''Video Description Unavailable''),
             video_url = JStr url, author = JStr (str_of ''Unknown'')\<rparr>) \<and>
   (api_get env (api_url_of video_id) = Inr response \<and> status_code response = 200 \<and>
    response_json response = Inr (JDict kvs) \<and> map_of kvs (str_of ''aweme_detail'') = None \<longrightarrow>
      fst (fetch_data_with_httpx env url video_id) =
        Inr \<lparr>aweme_id = JStr video_id, desc = JStr (str_of ''Video Description Unavailable''),
             video_url = JStr url, author = JStr (str_of ''Unknown'')\<rparr>) \<and>
   (fetch_try env url video_id = Inl e \<longrightarrow>
      fst (fetch_data_with_httpx env url video_id) =
        Inr \<lparr>aweme_id = JStr video_id, desc = JStr (str_of ''Error retrieving video details''),
             video_url = JStr url, author = JStr (str_of ''Unknown'')\<rparr>) \<and>
   (api_get env (api_url_of video_id) = Inl msg \<longrightarrow>
      fst (fetch_data_with_httpx env url video_id) =
        Inr \<lparr>aweme_id = JStr video_id, desc = JStr (str_of ''Error retrieving video details''),
             video_url = JStr url, author = JStr (str_of ''Unknown'')\<rparr>) \<and>
   (api_get env (api_url_of video_id) = Inr response \<and> status_code response = 200 \<and>
    response_json response = Inl msg \<longrightarrow>
      fst (fetch_data_with_httpx env url video_id) =
        Inr \<lparr>aweme_id = JStr video_id, desc = JStr (str_of ''Error retrieving video details''),
             video_url = JStr url, author = JStr (str_of ''Unknown'')\<rparr>) \<and>
   desc (unavailable_record url video_id) \<noteq> desc (error_record url video_id)"
proof (intro conjI impI)
  show "\<exists>r. fst (fetch_data_with_httpx env url video_id) = Inr r"
    by (rule fetch_data_with_httpx_returns)
next
  assume "api_get env (api_url_of video_id) = Inr response \<and> status_code response \<noteq> 200"
  then have "fetch_try env url video_id = Inr (unavailable_record url video_id)"
    by (simp add: fetch_try_def)
  then show "fst (fetch_data_with_httpx env url video_id) =
        Inr \<lparr>aweme_id = JStr video_id, desc = JStr (str_of ''Video Description Unavailable''),
             video_url = JStr url, author = JStr (str_of ''Unknown'')\<rparr>"
    by (simp add: fetch_data_with_httpx_cases unavailable_record_def)
next
  assume "api_get env (api_url_of video_id) = Inr response \<and> status_code response = 200 \<and>
    response_json response = Inr (JDict kvs) \<and> map_of kvs (str_of ''aweme_detail'') = None"
  then have "fetch_try env url video_id = Inr (unavailable_record url video_id)"
    by (simp add: fetch_try_def)
  then show "fst (fetch_data_with_httpx env url video_id) =
        Inr \<lparr>aweme_id = JStr video_id, desc = JStr (str_of ''Video Description Unavailable''),
             video_url = JStr url, author = JStr (str_of ''Unknown'')\<rparr>"
    by (simp add: fetch_data_with_httpx_cases unavailable_record_def)
next
  assume "fetch_try env url video_id = Inl e"
  then show "fst (fetch_data_with_httpx env url video_id) =
        Inr \<lparr>aweme_id = JStr video_id, desc = JStr (str_of ''Error retrieving video details''),
             video_url = JStr url, author = JStr (str_of ''Unknown'')\<rparr>"
    by (simp add: fetch_data_with_httpx_cases error_record_def)
next
  assume "api_get env (api_url_of video_id) = Inl msg"
  then have "fetch_try env url video_id = Inl (LibraryError msg)"
    by (simp add: fetch_try_def)
  then show "fst (fetch_data_with_httpx env url video_id) =
        Inr \<lparr>aweme_id = JStr video_id, desc = JStr (str_of ''Error retrieving video details''),
             video_url = JStr url, author = JStr (str_of ''Unknown'')\<rparr>"
    by (simp add: fetch_data_with_httpx_cases error_record_def)
next
  assume "api_get env (api_url_of video_id) = Inr response \<and> status_code response = 200 \<and>
    response_json response = Inl msg"
  then have "fetch_try env url video_id = Inl (LibraryError msg)"
    by (simp add: fetch_try_def)
  then show "fst (fetch_data_with_httpx env url video_id) =
        Inr \<lparr>aweme_id = JStr video_id, desc = JStr (str_of ''Error retrieving video details''),
             video_url = JStr url, author = JStr (str_of ''Unknown'')\<rparr>"
    by (simp add: fetch_data_with_httpx_cases error_record_def)
next
  show "desc (unavailable_record url video_id) \<noteq> desc (error_record url video_id)"
    by (simp add: unavailable_record_def error_record_def)
qed

theorem fetch_data_with_httpx_never_raises_witness:
  "fst (fetch_data_with_httpx (plain_env 404 (Inl (str_of ''no body''))) (str_of ''https://www.douyin.com/video/999'') (str_of ''999'')) =
     Inr \<lparr>aweme_id = JStr (str_of ''999''), desc = JStr (str_of ''Video Description Unavailable''),
          video_url = JStr (str_of ''https://www.douyin.com/video/999''), author = JStr (str_of ''Unknown'')\<rparr> \<and>
   fst (fetch_data_with_httpx (plain_env 200 (Inr (JDict [(str_of ''status_code'', JInt 8)])))
          (str_of ''https://www.douyin.com/video/999'') (str_of ''999'')) =
     Inr \<lparr>aweme_id = JStr (str_of ''999''), desc = JStr (str_of ''Video Description Unavailable''),
          video_url = JStr (str_of ''https://www.douyin.com/video/999''), author = JStr (str_of ''Unknown'')\<rparr> \<and>
   fst (fetch_data_with_httpx offline_env (str_of ''https://www.douyin.com/video/999'') (str_of ''999'')) =
     Inr \<lparr>aweme_id = JStr (str_of ''999''), desc = JStr (str_of ''Error retrieving video details''),
          video_url = JStr (str_of ''https://www.douyin.com/video/999''), author = JStr (str_of ''Unknown'')\<rparr> \<and>
   fst (fetch_data_with_httpx (plain_env 200 (Inl (str_of ''Expecting value'')))
          (str_of ''https://www.douyin.com/video/999'') (str_of ''999'')) =
     Inr \<lparr>aweme_id = JStr (str_of ''999''), desc = JStr (str_of ''Error retrieving video details''),
          video_url = JStr (str_of ''https://www.douyin.com/video/999''), author = JStr (str_of ''Unknown'')\<rparr>"
proof -
  have a: "api_get (plain_env 404 (Inl (str_of ''no body''))) (api_url_of (str_of ''999'')) =
             Inr \<lparr>status_code = 404, response_json = Inl (str_of ''no body'')\<rparr> \<and>
           status_code \<lparr>status_code = 404, response_json = Inl (str_of ''no body'')\<rparr> \<noteq> 200"
    by (simp add: plain_env_def)
  have b: "api_get (plain_env 200 (Inr (JDict [(str_of ''status_code'', JInt 8)]))) (api_url_of (str_of ''999'')) =
             Inr \<lparr>status_code = 200, response_json = Inr (JDict [(str_of ''status_code'', JInt 8)])\<rparr> \<and>
           status_code \<lparr>status_code = 200, response_json = Inr (JDict [(str_of ''status_code'', JInt 8)])\<rparr> = 200 \<and>
           response_json \<lparr>status_code = 200, response_json = Inr (JDict [(str_of ''status_code'', JInt 8)])\<rparr> =
             Inr (JDict [(str_of ''status_code'', JInt 8)]) \<and>
           map_of [(str_of ''status_code'', JInt 8)] (str_of ''aweme_detail'') = None"
    by (simp add: plain_env_def)
  have c: "api_get offline_env (api_url_of (str_of ''999'')) = Inl (str_of ''connection refused'')"
    by (simp add: offline_env_def)
  have d: "api_get (plain_env 200 (Inl (str_of ''Expecting value''))) (api_url_of (str_of ''999'')) =
             Inr \<lparr>status_code = 200, response_json = Inl (str_of ''Expecting value'')\<rparr> \<and>
           status_code \<lparr>status_code = 200, response_json = Inl (str_of ''Expecting value'')\<rparr> = 200 \<and>
           response_json \<lparr>status_code = 200, response_json = Inl (str_of ''Expecting value'')\<rparr> =
             Inl (str_of ''Expecting value'')"
    by (simp add: plain_env_def)
  note t = fetch_data_with_httpx_never_raises
    [where url = "(str_of ''https://www.douyin.com/video/999'')" and video_id = "(str_of ''999'')"]
  have r1: "fst (fetch_data_with_httpx (plain_env 404 (Inl (str_of ''no body''))) (str_of ''https://www.douyin.com/video/999'') (str_of ''999'')) =
     Inr \<lparr>aweme_id = JStr (str_of ''999''), desc = JStr (str_of ''Video Description Unavailable''),
          video_url = JStr (str_of ''https://www.douyin.com/video/999''), author = JStr (str_of ''Unknown'')\<rparr>"
    by (rule t [THEN conjunct2, THEN conjunct1, THEN mp, OF a])
  have r2: "fst (fetch_data_with_httpx (plain_env 200 (Inr (JDict [(str_of ''status_code'', JInt 8)])))
          (str_of ''https://www.douyin.com/video/999'') (str_of ''999'')) =
     Inr \<lparr>aweme_id = JStr (str_of ''999''), desc = JStr (str_of ''Video Description Unavailable''),
          video_url = JStr (str_of ''https://www.douyin.com/video/999''), author = JStr (str_of ''Unknown'')\<rparr>"
    by (rule t [THEN conjunct2, THEN conjunct2, THEN conjunct1, THEN mp, OF b])
  have r3: "fst (fetch_data_with_httpx offline_env (str_of ''https://www.douyin.com/video/999'') (str_of ''999'')) =
     Inr \<lparr>aweme_id = JStr (str_of ''999''), desc = JStr (str_of ''Error retrieving video details''),
          video_url = JStr (str_of ''https://www.douyin.com/video/999''), author = JStr (str_of ''Unknown'')\<rparr>"
    by (rule t [THEN conjunct2, THEN conjunct2, THEN conjunct2, THEN conjunct2, THEN conjunct1,
                THEN mp, OF c])
  have r4: "fst (fetch_data_with_httpx (plain_env 200 (Inl (str_of ''Expecting value'')))
          (str_of ''https://www.douyin.com/video/999'') (str_of ''999'')) =
     Inr \<lparr>aweme_id = JStr (str_of ''999''), desc = JStr (str_of ''Error retrieving video details''),
          video_url = JStr (str_of ''https://www.douyin.com/video/999''), author = JStr (str_of ''Unknown'')\<rparr>"
    by (rule t [THEN conjunct2, THEN conjunct2, THEN conjunct2, THEN conjunct2, THEN conjunct2,
                THEN conjunct1, THEN mp, OF d])
  show ?thesis
    using r1 r2 r3 r4 by (intro conjI)
qed

section \<open>Lightweight Fetcher: the mapping\<close>

text \<open>
  Claim C4. On a response with status 200 whose body has an \<open>aweme_detail\<close> dictionary of
  the expected structure, \<open>fetch_data_with_httpx\<close> returns exactly \<open>aweme_detail.aweme_id\<close>,
  \<open>aweme_detail.desc\<close>, the first element of \<open>aweme_detail.video.play_addr.url_list\<close> and
  \<open>aweme_detail.author.nickname\<close>.
\<close>

theorem fetch_data_with_httpx_maps_detail:
  assumes "api_get env (api_url_of video_id) = Inr response"
    and "status_code response = 200"
    and "response_json response = Inr data"
    and "json_path data [str_of ''aweme_detail''] = Some detail"
    and "json_path detail [str_of ''aweme_id''] = Some a"
    and "json_path detail [str_of ''desc''] = Some d"
    and "json_path detail [str_of ''video'', str_of ''play_addr'', str_of ''url_list''] = Some (JList (u # us))"
    and "json_path detail [str_of ''author'', str_of ''nickname''] = Some n"
  shows "fst (fetch_data_with_httpx env url video_id) =
           Inr \<lparr>aweme_id = a, desc = d, video_url = u, author = n\<rparr>"
proof -
  from json_path_step [OF assms(4)] have g: "getitem_str data (str_of ''aweme_detail'') = Inr detail"
    and i: "py_in (str_of ''aweme_detail'') data = Inr True" and t: "py_truthy data"
    by auto
  have "detail_fields detail = Inr \<lparr>aweme_id = a, desc = d, video_url = u, author = n\<rparr>"
    using assms(5-8) by (rule detail_fields_well_formed)
  then have "fetch_try env url video_id = Inr \<lparr>aweme_id = a, desc = d, video_url = u, author = n\<rparr>"
    using assms(1-3) g i t by (simp add: fetch_try_def)
  then show ?thesis by (simp add: fetch_data_with_httpx_cases)
qed

theorem fetch_data_with_httpx_maps_detail_witness:
  "fst (fetch_data_with_httpx (plain_env 200 (Inr (JDict [(str_of ''aweme_detail'', sample_detail)])))
          (str_of ''https://www.douyin.com/video/999'') (str_of ''999'')) =
     Inr \<lparr>aweme_id = JStr (str_of ''999''), desc = JStr (str_of ''a clip''),
          video_url = JStr (str_of ''https://cdn.example/v.mp4''), author = JStr (str_of ''someone'')\<rparr>"
proof -
  have a: "api_get (plain_env 200 (Inr (JDict [(str_of ''aweme_detail'', sample_detail)]))) (api_url_of (str_of ''999'')) =
             Inr \<lparr>status_code = 200, response_json = Inr (JDict [(str_of ''aweme_detail'', sample_detail)])\<rparr>"
    by (simp add: plain_env_def)
  have b: "status_code \<lparr>status_code = 200, response_json = Inr (JDict [(str_of ''aweme_detail'', sample_detail)])\<rparr> = 200"
    by simp
  have c: "response_json \<lparr>status_code = 200, response_json = Inr (JDict [(str_of ''aweme_detail'', sample_detail)])\<rparr> =
             Inr (JDict [(str_of ''aweme_detail'', sample_detail)])"
    by simp
  have d: "json_path (JDict [(str_of ''aweme_detail'', sample_detail)]) [str_of ''aweme_detail''] = Some sample_detail"
    by simp
  have e: "json_path sample_detail [str_of ''aweme_id''] = Some (JStr (str_of ''999''))"
    by (simp add: sample_detail_def)
  have f: "json_path sample_detail [str_of ''desc''] = Some (JStr (str_of ''a clip''))"
    by (simp add: sample_detail_def)
  have g: "json_path sample_detail [str_of ''video'', str_of ''play_addr'', str_of ''url_list''] =
             Some (JList (JStr (str_of ''https://cdn.example/v.mp4'') # [JStr (str_of ''https://cdn2.example/v.mp4'')]))"
    by (simp add: sample_detail_def)
  have h: "json_path sample_detail [str_of ''author'', str_of ''nickname''] = Some (JStr (str_of ''someone''))"
    by (simp add: sample_detail_def)
  show ?thesis
    by (rule fetch_data_with_httpx_maps_detail [OF a b c d e f g h])
qed

section \<open>Lightweight Fetcher: a partial body\<close>

text \<open>
  Claim C9. On a response with status 200 whose body has the key \<open>aweme_detail\<close> but lacks
  one of the nested fields the mapping reads (\<open>aweme_id\<close>, \<open>desc\<close>,
  \<open>video.play_addr.url_list\<close> or its first element, \<open>author.nickname\<close>), the lookup raises
  inside the \<open>try\<close> and \<open>fetch_data_with_httpx\<close> returns the record of the exception path,
  with the description \<open>Error retrieving video details\<close>, not the one with
  \<open>Video Description Unavailable\<close>.
\<close>

theorem fetch_data_with_httpx_partial_detail:
  assumes "api_get env (api_url_of video_id) = Inr response"
    and "status_code response = 200"
    and "response_json response = Inr data"
    and "json_path data [str_of ''aweme_detail''] = Some detail"
    and "json_path detail [str_of ''aweme_id''] = None \<or>
         json_path detail [str_of ''desc''] = None \<or>
         json_path detail [str_of ''video'', str_of ''play_addr'', str_of ''url_list''] = None \<or>
         json_path detail [str_of ''video'', str_of ''play_addr'', str_of ''url_list''] = Some (JList []) \<or>
         json_path detail [str_of ''author'', str_of ''nickname''] = None"
  shows "fst (fetch_data_with_httpx env url video_id) =
           Inr \<lparr>aweme_id = JStr video_id, desc = JStr (str_of ''Error retrieving video details''),
                video_url = JStr url, author = JStr (str_of ''Unknown'')\<rparr>"
proof -
  from json_path_step [OF assms(4)] have g: "getitem_str data (str_of ''aweme_detail'') = Inr detail"
    and i: "py_in (str_of ''aweme_detail'') data = Inr True" and t: "py_truthy data"
    by auto
  have "\<exists>e. detail_fields detail = Inl e"
  proof (cases "detail_fields detail")
    case (Inl e)
    then show ?thesis by blast
  next
    case (Inr r)
    from detail_fields_Inr [OF Inr] assms(5) have False by auto
    then show ?thesis ..
  qed
  then obtain e where "detail_fields detail = Inl e" by blast
  then have "fetch_try env url video_id = Inl e"
    using assms(1-3) g i t by (simp add: fetch_try_def)
  then show ?thesis by (simp add: fetch_data_with_httpx_cases error_record_def)
qed

theorem fetch_data_with_httpx_partial_detail_witness:
  "json_path partial_detail [str_of ''author'', str_of ''nickname''] = None \<and>
   fst (fetch_data_with_httpx (plain_env 200 (Inr (JDict [(str_of ''aweme_detail'', partial_detail)])))
          (str_of ''https://www.douyin.com/video/999'') (str_of ''999'')) =
     Inr \<lparr>aweme_id = JStr (str_of ''999''), desc = JStr (str_of ''Error retrieving video details''),
          video_url = JStr (str_of ''https://www.douyin.com/video/999''), author = JStr (str_of ''Unknown'')\<rparr>"
proof -
  have a: "api_get (plain_env 200 (Inr (JDict [(str_of ''aweme_detail'', partial_detail)]))) (api_url_of (str_of ''999'')) =
             Inr \<lparr>status_code = 200, response_json = Inr (JDict [(str_of ''aweme_detail'', partial_detail)])\<rparr>"
    by (simp add: plain_env_def)
  have b: "status_code \<lparr>status_code = 200, response_json = Inr (JDict [(str_of ''aweme_detail'', partial_detail)])\<rparr> = 200"
    by simp
  have c: "response_json \<lparr>status_code = 200, response_json = Inr (JDict [(str_of ''aweme_detail'', partial_detail)])\<rparr> =
             Inr (JDict [(str_of ''aweme_detail'', partial_detail)])"
    by simp
  have d: "json_path (JDict [(str_of ''aweme_detail'', partial_detail)]) [str_of ''aweme_detail''] = Some partial_detail"
    by simp
  have n: "json_path partial_detail [str_of ''author'', str_of ''nickname''] = None"
    by (simp add: partial_detail_def)
  then have e: "json_path partial_detail [str_of ''aweme_id''] = None \<or>
         json_path partial_detail [str_of ''desc''] = None \<or>
         json_path partial_detail [str_of ''video'', str_of ''play_addr'', str_of ''url_list''] = None \<or>
         json_path partial_detail [str_of ''video'', str_of ''play_addr'', str_of ''url_list''] = Some (JList []) \<or>
         json_path partial_detail [str_of ''author'', str_of ''nickname''] = None"
    by blast
  have r: "fst (fetch_data_with_httpx (plain_env 200 (Inr (JDict [(str_of ''aweme_detail'', partial_detail)])))
          (str_of ''https://www.douyin.com/video/999'') (str_of ''999'')) =
     Inr \<lparr>aweme_id = JStr (str_of ''999''), desc = JStr (str_of ''Error retrieving video details''),
          video_url = JStr (str_of ''https://www.douyin.com/video/999''), author = JStr (str_of ''Unknown'')\<rparr>"
    by (rule fetch_data_with_httpx_partial_detail [OF a b c d e])
  show ?thesis
    using n r by (intro conjI)
qed

section \<open>The handler, branch by branch\<close>

lemma extract_video_id_nonempty:
  assumes "extract_video_id nd url = Some v"
  shows "v \<noteq> []"
proof -
  have "(\<exists>lit. leftmost_run [str_of ''/video/'', str_of ''/note/''] (is_digit nd) url lit v) \<or>
        leftmost_run [str_of ''aweme_id=''] (is_digit nd) url (str_of ''aweme_id='') v \<or>
        leftmost_run [str_of ''vid=''] (is_digit nd) url (str_of ''vid='') v"
    using assms video_search_Some [of nd url v] aweme_search_Some [of nd url v] vid_search_Some [of nd url v]
    by (auto simp: extract_video_id_def split: option.splits)
  then show ?thesis
    unfolding leftmost_run_def by blast
qed

lemma follow_redirect_Inr:
  "\<exists>u. follow_redirect env short_url = (Inr u, [RedirectGet short_url])"
  by (cases "redirect_get env short_url") (simp_all add: follow_redirect_def)

lemma resolve_step:
  "(if str_in (str_of ''v.douyin.com'') (clean_url raw)
    then follow_redirect env (clean_url raw)
    else (Inr (clean_url raw), [])) = (Inr (resolved_url env raw), redirect_calls raw)"
proof (cases "str_in (str_of ''v.douyin.com'') (clean_url raw)")
  case True
  obtain u where u: "follow_redirect env (clean_url raw) = (Inr u, [RedirectGet (clean_url raw)])"
    using follow_redirect_Inr by blast
  then show ?thesis using True by (simp add: resolved_url_def redirect_calls_def)
next
  case False
  then show ?thesis by (simp add: resolved_url_def redirect_calls_def)
qed

lemma redirect_calls_no_browser: "filter is_browser_call (redirect_calls raw) = []"
  by (simp add: redirect_calls_def)

lemma get_douyin_info_None:
  assumes "extract_video_id nd (resolved_url env raw) = None"
  shows "get_douyin_info nd env raw =
           (Inl (HTTPException 400 (str_of ''Could not extract video ID from URL'')), redirect_calls raw)"
  unfolding get_douyin_info_def resolve_step using assms by simp

lemma get_douyin_info_plain:
  assumes "extract_video_id nd (resolved_url env raw) = Some video_id"
    and "\<not> PLAYWRIGHT_AVAILABLE env"
  shows "get_douyin_info nd env raw =
           (fst (fetch_data_with_httpx env (resolved_url env raw) video_id),
            redirect_calls raw @ snd (fetch_data_with_httpx env (resolved_url env raw) video_id))"
  unfolding get_douyin_info_def resolve_step
  using assms extract_video_id_nonempty [OF assms(1)]
  by (auto split: prod.splits sum.splits)

lemma get_douyin_info_browser_failed:
  assumes "extract_video_id nd (resolved_url env raw) = Some video_id"
    and "PLAYWRIGHT_AVAILABLE env"
    and "fst (get_data_with_playwright nd env (resolved_url env raw)) = Inl e"
  shows "get_douyin_info nd env raw =
           (fst (fetch_data_with_httpx env (resolved_url env raw) video_id),
            redirect_calls raw @ snd (get_data_with_playwright nd env (resolved_url env raw)) @
              snd (fetch_data_with_httpx env (resolved_url env raw) video_id))"
  unfolding get_douyin_info_def resolve_step
  using assms extract_video_id_nonempty [OF assms(1)]
  by (auto split: prod.splits sum.splits)

lemma get_douyin_info_browser_ok:
  assumes "extract_video_id nd (resolved_url env raw) = Some video_id"
    and "PLAYWRIGHT_AVAILABLE env"
    and "fst (get_data_with_playwright nd env (resolved_url env raw)) = Inr v"
  shows "get_douyin_info nd env raw =
           (Inr v, redirect_calls raw @ snd (get_data_with_playwright nd env (resolved_url env raw)))"
  unfolding get_douyin_info_def resolve_step
  using assms extract_video_id_nonempty [OF assms(1)]
  by (auto split: prod.splits sum.splits)

lemma fetch_calls_no_browser:
  "filter is_browser_call (snd (fetch_data_with_httpx env url video_id)) = []"
  by (simp add: fetch_data_with_httpx_def split: sum.splits)

lemma get_douyin_info_Some_returns:
  assumes "extract_video_id nd (resolved_url env raw) = Some video_id"
  shows "\<exists>r. fst (get_douyin_info nd env raw) = Inr r"
proof (cases "PLAYWRIGHT_AVAILABLE env")
  case False
  then show ?thesis
    using get_douyin_info_plain [OF assms] fetch_data_with_httpx_returns by simp
next
  case True
  show ?thesis
  proof (cases "fst (get_data_with_playwright nd env (resolved_url env raw))")
    case (Inl e)
    then show ?thesis
      using get_douyin_info_browser_failed [OF assms True] fetch_data_with_httpx_returns by simp
  next
    case (Inr v)
    then show ?thesis
      using get_douyin_info_browser_ok [OF assms True] by simp
  qed
qed

lemma get_data_with_playwright_raises:
  assumes "PLAYWRIGHT_AVAILABLE env"
    and "fst (playwright_try nd (browser env url) url) = Inl msg"
  shows "fst (get_data_with_playwright nd env url) = Inl (HTTPException 500 ((str_of ''Playwright error: '') @ msg))"
  using assms by (auto simp: get_data_with_playwright_def split: prod.splits sum.splits)


lemma get_data_with_playwright_calls:
  "\<exists>calls. snd (get_data_with_playwright nd env url) = GetDataWithPlaywright url # calls"
  by (auto simp: get_data_with_playwright_def split: prod.splits sum.splits)

lemma short_link_has_host:
  assumes "has_short_link raw"
  shows "str_in (str_of ''v.douyin.com'') raw"
proof -
  from assms obtain pre t lit c rest where raw: "raw = pre @ t"
    and lit: "lit = str_of ''https://v.douyin.com/'' \<or> lit = str_of ''http://v.douyin.com/''"
    and t: "t = lit @ c # rest"
    unfolding has_short_link_def has_form_def starts_with_form_def by auto
  from lit show ?thesis
  proof
    assume "lit = str_of ''https://v.douyin.com/''"
    then have "raw = (pre @ str_of ''https://'') @ str_of ''v.douyin.com'' @ (str_of ''/'' @ c # rest)"
      using raw t by (simp add: str_of_def)
    then show ?thesis unfolding str_in_def sublist_def by blast
  next
    assume "lit = str_of ''http://v.douyin.com/''"
    then have "raw = (pre @ str_of ''http://'') @ str_of ''v.douyin.com'' @ (str_of ''/'' @ c # rest)"
      using raw t by (simp add: str_of_def)
    then show ?thesis unfolding str_in_def sublist_def by blast
  qed
qed

lemma clean_url_without_host:
  assumes "\<not> str_in (str_of ''v.douyin.com'') raw"
  shows "clean_url raw = raw"
proof -
  have "\<not> has_short_link raw" using assms short_link_has_host by blast
  then have "re_search short_link_at raw = None" by (simp add: short_search_None)
  then show ?thesis by (simp add: clean_url_def)
qed

lemma fetch_try_Inr:
  assumes "fetch_try env url video_id = Inr r"
  shows "r = unavailable_record url video_id \<or>
         (\<exists>response data detail.
            api_get env (api_url_of video_id) = Inr response \<and> status_code response = 200 \<and>
            response_json response = Inr data \<and>
            json_path data [str_of ''aweme_detail''] = Some detail \<and>
            detail_fields detail = Inr r)"
proof -
  from assms obtain response where a: "api_get env (api_url_of video_id) = Inr response"
    and rest: "(if status_code response = 200 then
         and_then (library_call (response_json response)) (\<lambda>data.
           if py_truthy data then
             and_then (py_in (str_of ''aweme_detail'') data) (\<lambda>present.
               if present then
                 and_then (getitem_str data (str_of ''aweme_detail'')) (\<lambda>detail.
                   detail_fields detail)
               else Inr (unavailable_record url video_id))
           else Inr (unavailable_record url video_id))
       else Inr (unavailable_record url video_id)) = Inr r"
    unfolding fetch_try_def
    by (cases "api_get env (api_url_of video_id)") auto
  show ?thesis
  proof (cases "status_code response = 200")
    case False
    then show ?thesis using rest by simp
  next
    case True
    then obtain data where d: "response_json response = Inr data"
      and rest2: "(if py_truthy data then
             and_then (py_in (str_of ''aweme_detail'') data) (\<lambda>present.
               if present then
                 and_then (getitem_str data (str_of ''aweme_detail'')) (\<lambda>detail.
                   detail_fields detail)
               else Inr (unavailable_record url video_id))
           else Inr (unavailable_record url video_id)) = Inr r"
      using rest by (cases "response_json response") auto
    show ?thesis
    proof (cases "py_truthy data")
      case False
      then show ?thesis using rest2 by simp
    next
      case t: True
      then obtain present where "py_in (str_of ''aweme_detail'') data = Inr present"
        and rest3: "(if present then
                 and_then (getitem_str data (str_of ''aweme_detail'')) (\<lambda>detail.
                   detail_fields detail)
               else Inr (unavailable_record url video_id)) = Inr r"
        using rest2 by (cases "py_in (str_of ''aweme_detail'') data") auto
      show ?thesis
      proof (cases present)
        case False
        then show ?thesis using rest3 by simp
      next
        case True
        then obtain detail where g: "getitem_str data (str_of ''aweme_detail'') = Inr detail"
          and f: "detail_fields detail = Inr r"
          using rest3 by (cases "getitem_str data (str_of ''aweme_detail'')") auto
        from g have "json_path data [str_of ''aweme_detail''] = Some detail"
          by (simp add: getitem_str_json_path)
        then show ?thesis using a \<open>status_code response = 200\<close> d f by blast
      qed
    qed
  qed
qed

lemma fetch_data_with_httpx_snd:
  "snd (fetch_data_with_httpx env url video_id) = [ApiGet (api_url_of video_id)]"
  by (simp add: fetch_data_with_httpx_def split: sum.splits)

lemma fetch_data_with_httpx_result:
  "\<exists>r. fst (fetch_data_with_httpx env url video_id) = Inr r \<and>
       (r = unavailable_record url video_id \<or> r = error_record url video_id \<or>
        (\<exists>response data detail.
            api_get env (api_url_of video_id) = Inr response \<and> status_code response = 200 \<and>
            response_json response = Inr data \<and>
            json_path data [str_of ''aweme_detail''] = Some detail \<and>
            detail_fields detail = Inr r))"
proof (cases "fetch_try env url video_id")
  case (Inl e)
  then show ?thesis by (simp add: fetch_data_with_httpx_cases)
next
  case (Inr r)
  then have "fst (fetch_data_with_httpx env url video_id) = Inr r"
    by (simp add: fetch_data_with_httpx_cases)
  then show ?thesis using fetch_try_Inr [OF Inr] by blast
qed

section \<open>Orchestrator: a missing identifier\<close>

text \<open>
  Claim C7 says that an input with no URL shape at all is refused with 400 without any
  outbound call. The handler decides on the redirect request by the test
  \<open>"v.douyin.com" in url\<close> alone: a text that names the host without being a link has no
  short link to extract, is passed on unchanged, and is handed to \<open>client.get\<close> before the 400.
\<close>

theorem host_in_plain_text_calls_client:
  "\<not> has_short_link (str_of ''see v.douyin.com now'') \<and>
   extract_video_id fullwidth_digit (resolved_url refusing_env (str_of ''see v.douyin.com now'')) = None \<and>
   get_douyin_info fullwidth_digit refusing_env (str_of ''see v.douyin.com now'') =
     (Inl (HTTPException 400 (str_of ''Could not extract video ID from URL'')),
      [RedirectGet (str_of ''see v.douyin.com now'')])"
proof -
  have h: "\<not> has_short_link (str_of ''see v.douyin.com now'')"
    by (simp add: clean_eval)
  have c: "clean_url (str_of ''see v.douyin.com now'') = str_of ''see v.douyin.com now''"
    by (simp add: clean_eval)
  have s: "str_in (str_of ''v.douyin.com'') (str_of ''see v.douyin.com now'')"
    by (simp add: str_in_def sublist_code str_of_def)
  have f: "follow_redirect refusing_env (str_of ''see v.douyin.com now'') =
             (Inr (str_of ''see v.douyin.com now''), [RedirectGet (str_of ''see v.douyin.com now'')])"
    by (simp add: follow_redirect_def refusing_env_def)
  have r: "resolved_url refusing_env (str_of ''see v.douyin.com now'') = str_of ''see v.douyin.com now''"
    using c s f by (simp add: resolved_url_def)
  have x: "extract_video_id fullwidth_digit (str_of ''see v.douyin.com now'') = None"
    by (simp add: search_eval)
  have e: "extract_video_id fullwidth_digit (resolved_url refusing_env (str_of ''see v.douyin.com now'')) = None"
    using r x by simp
  have g: "get_douyin_info fullwidth_digit refusing_env (str_of ''see v.douyin.com now'') =
     (Inl (HTTPException 400 (str_of ''Could not extract video ID from URL'')),
      [RedirectGet (str_of ''see v.douyin.com now'')])"
    unfolding get_douyin_info_def c using s f x by simp
  show ?thesis using h e g by (intro conjI)
qed

text \<open>
  Claim C7, amended. When no identifier can be extracted from the URL obtained by
  normalization (and redirect resolution, when applicable), the handler fails with the
  client error 400 \<open>Could not extract video ID from URL\<close>, and it fails with that error in no
  other case. Before failing it calls the HTTP client once, for the redirect request, when
  the normalized input contains \<open>v.douyin.com\<close>, and makes no call otherwise. In particular
  an input that does not contain \<open>v.douyin.com\<close>, such as \<open>not a url\<close>, is refused with 400
  without any outbound call.
\<close>

theorem get_douyin_info_missing_identifier:
  "(extract_video_id nd (resolved_url env raw) = None \<longleftrightarrow>
      fst (get_douyin_info nd env raw) =
        Inl (HTTPException 400 (str_of ''Could not extract video ID from URL''))) \<and>
   (extract_video_id nd (resolved_url env raw) = None \<longrightarrow>
      snd (get_douyin_info nd env raw) =
        (if str_in (str_of ''v.douyin.com'') (clean_url raw)
         then [RedirectGet (clean_url raw)] else [])) \<and>
   (\<not> str_in (str_of ''v.douyin.com'') raw \<and> extract_video_id nd raw = None \<longrightarrow>
      get_douyin_info nd env raw =
        (Inl (HTTPException 400 (str_of ''Could not extract video ID from URL'')), []))"
proof (intro conjI impI)
  show "extract_video_id nd (resolved_url env raw) = None \<longleftrightarrow>
      fst (get_douyin_info nd env raw) =
        Inl (HTTPException 400 (str_of ''Could not extract video ID from URL''))"
  proof (cases "extract_video_id nd (resolved_url env raw)")
    case None
    then show ?thesis using get_douyin_info_None [OF None] by simp
  next
    case (Some video_id)
    then show ?thesis using get_douyin_info_Some_returns [OF Some] by auto
  qed
next
  assume "extract_video_id nd (resolved_url env raw) = None"
  then show "snd (get_douyin_info nd env raw) =
        (if str_in (str_of ''v.douyin.com'') (clean_url raw)
         then [RedirectGet (clean_url raw)] else [])"
    using get_douyin_info_None [of nd env raw] by (simp add: redirect_calls_def)
next
  assume h: "\<not> str_in (str_of ''v.douyin.com'') raw \<and> extract_video_id nd raw = None"
  then have c: "clean_url raw = raw" using clean_url_without_host by blast
  have r: "resolved_url env raw = raw" using h c by (simp add: resolved_url_def)
  have "redirect_calls raw = []" using h c by (simp add: redirect_calls_def)
  then show "get_douyin_info nd env raw =
        (Inl (HTTPException 400 (str_of ''Could not extract video ID from URL'')), [])"
    using get_douyin_info_None [of nd env raw] r h by simp
qed

theorem get_douyin_info_missing_identifier_witness:
  "extract_video_id fullwidth_digit (resolved_url offline_env (str_of ''https://v.douyin.com/ABC123'')) = None \<and>
   fst (get_douyin_info fullwidth_digit offline_env (str_of ''https://v.douyin.com/ABC123'')) =
     Inl (HTTPException 400 (str_of ''Could not extract video ID from URL'')) \<and>
   snd (get_douyin_info fullwidth_digit offline_env (str_of ''https://v.douyin.com/ABC123'')) =
     [RedirectGet (str_of ''https://v.douyin.com/ABC123'')] \<and>
   \<not> str_in (str_of ''v.douyin.com'') (str_of ''not a url'') \<and>
   extract_video_id fullwidth_digit (str_of ''not a url'') = None \<and>
   get_douyin_info fullwidth_digit offline_env (str_of ''not a url'') =
     (Inl (HTTPException 400 (str_of ''Could not extract video ID from URL'')), [])"
proof -
  have c: "clean_url (str_of ''https://v.douyin.com/ABC123'') = str_of ''https://v.douyin.com/ABC123''"
    by (simp add: clean_eval)
  have s: "str_in (str_of ''v.douyin.com'') (str_of ''https://v.douyin.com/ABC123'')"
    by (simp add: str_in_def sublist_code str_of_def)
  have r: "resolved_url offline_env (str_of ''https://v.douyin.com/ABC123'') = str_of ''https://v.douyin.com/ABC123''"
    using c s by (simp add: resolved_url_def follow_redirect_def offline_env_def)
  have "extract_video_id fullwidth_digit (str_of ''https://v.douyin.com/ABC123'') = None"
    by (simp add: search_eval)
  then have e: "extract_video_id fullwidth_digit (resolved_url offline_env (str_of ''https://v.douyin.com/ABC123'')) = None"
    using r by simp
  note t = get_douyin_info_missing_identifier
    [of fullwidth_digit offline_env "str_of ''https://v.douyin.com/ABC123''"]
  have a: "fst (get_douyin_info fullwidth_digit offline_env (str_of ''https://v.douyin.com/ABC123'')) =
     Inl (HTTPException 400 (str_of ''Could not extract video ID from URL''))"
    using t [THEN conjunct1] e by simp
  have b: "snd (get_douyin_info fullwidth_digit offline_env (str_of ''https://v.douyin.com/ABC123'')) =
     [RedirectGet (str_of ''https://v.douyin.com/ABC123'')]"
    using t [THEN conjunct2, THEN conjunct1, THEN mp, OF e] c s by simp
  have n: "\<not> str_in (str_of ''v.douyin.com'') (str_of ''not a url'')"
    by (simp add: str_in_def sublist_code str_of_def)
  have x: "extract_video_id fullwidth_digit (str_of ''not a url'') = None"
    by (simp add: search_eval)
  have d: "get_douyin_info fullwidth_digit offline_env (str_of ''not a url'') =
     (Inl (HTTPException 400 (str_of ''Could not extract video ID from URL'')), [])"
    using get_douyin_info_missing_identifier
      [of fullwidth_digit offline_env "str_of ''not a url''", THEN conjunct2, THEN conjunct2, THEN mp]
      n x by blast
  show ?thesis using e a b n x d by (intro conjI)
qed

section \<open>Orchestrator: try the browser, fall back to the API\<close>

text \<open>
  Claim C8 ends: a valid identifier always yields some VideoRecord. The handler returns the
  dictionary of the fetcher as it is, and the Lightweight Fetcher copies the four values of
  the upstream body without looking at them: with a body whose \<open>desc\<close> is \<open>null\<close> the
  dictionary returned is no VideoRecord.
\<close>

theorem null_desc_is_no_video_record:
  "\<not> PLAYWRIGHT_AVAILABLE (plain_env 200 (Inr (JDict [(str_of ''aweme_detail'', null_desc_detail)]))) \<and>
   extract_video_id fullwidth_digit
     (resolved_url (plain_env 200 (Inr (JDict [(str_of ''aweme_detail'', null_desc_detail)])))
        (str_of ''https://www.douyin.com/video/999'')) = Some (str_of ''999'') \<and>
   fst (get_douyin_info fullwidth_digit
          (plain_env 200 (Inr (JDict [(str_of ''aweme_detail'', null_desc_detail)])))
          (str_of ''https://www.douyin.com/video/999'')) =
     Inr \<lparr>aweme_id = JStr (str_of ''999''), desc = JNone,
          video_url = JStr (str_of ''https://cdn.example/v.mp4''), author = JStr (str_of ''someone'')\<rparr> \<and>
   \<not> is_video_record
     \<lparr>aweme_id = JStr (str_of ''999''), desc = JNone,
      video_url = JStr (str_of ''https://cdn.example/v.mp4''), author = JStr (str_of ''someone'')\<rparr>"
proof -
  have n: "\<not> PLAYWRIGHT_AVAILABLE (plain_env 200 (Inr (JDict [(str_of ''aweme_detail'', null_desc_detail)])))"
    by (simp add: plain_env_def)
  have c: "clean_url (str_of ''https://www.douyin.com/video/999'') = str_of ''https://www.douyin.com/video/999''"
    by (simp add: clean_eval)
  have s: "\<not> str_in (str_of ''v.douyin.com'') (str_of ''https://www.douyin.com/video/999'')"
    by (simp add: str_in_def sublist_code str_of_def)
  have r: "resolved_url (plain_env 200 (Inr (JDict [(str_of ''aweme_detail'', null_desc_detail)])))
        (str_of ''https://www.douyin.com/video/999'') = str_of ''https://www.douyin.com/video/999''"
    using c s by (simp add: resolved_url_def)
  have x: "extract_video_id fullwidth_digit (str_of ''https://www.douyin.com/video/999'') = Some (str_of ''999'')"
    by (simp add: search_eval)
  have e: "extract_video_id fullwidth_digit
     (resolved_url (plain_env 200 (Inr (JDict [(str_of ''aweme_detail'', null_desc_detail)])))
        (str_of ''https://www.douyin.com/video/999'')) = Some (str_of ''999'')"
    using r x by simp
  have d: "detail_fields null_desc_detail =
     Inr \<lparr>aweme_id = JStr (str_of ''999''), desc = JNone,
          video_url = JStr (str_of ''https://cdn.example/v.mp4''), author = JStr (str_of ''someone'')\<rparr>"
    by (simp add: detail_fields_def null_desc_detail_def)
  have f: "fetch_data_with_httpx (plain_env 200 (Inr (JDict [(str_of ''aweme_detail'', null_desc_detail)])))
             (str_of ''https://www.douyin.com/video/999'') (str_of ''999'') =
     (Inr \<lparr>aweme_id = JStr (str_of ''999''), desc = JNone,
          video_url = JStr (str_of ''https://cdn.example/v.mp4''), author = JStr (str_of ''someone'')\<rparr>,
      [ApiGet (api_url_of (str_of ''999''))])"
    by (simp add: fetch_data_with_httpx_def fetch_try_def plain_env_def d)
  have g: "fst (get_douyin_info fullwidth_digit
          (plain_env 200 (Inr (JDict [(str_of ''aweme_detail'', null_desc_detail)])))
          (str_of ''https://www.douyin.com/video/999'')) =
     Inr \<lparr>aweme_id = JStr (str_of ''999''), desc = JNone,
          video_url = JStr (str_of ''https://cdn.example/v.mp4''), author = JStr (str_of ''someone'')\<rparr>"
    unfolding get_douyin_info_def c using s x n f by (simp add: str_of_def)
  have v: "\<not> is_video_record
     \<lparr>aweme_id = JStr (str_of ''999''), desc = JNone,
      video_url = JStr (str_of ''https://cdn.example/v.mp4''), author = JStr (str_of ''someone'')\<rparr>"
    by (simp add: is_video_record_def)
  show ?thesis using n e g v by (intro conjI)
qed

text \<open>
  Claim C8, amended. With an identifier extracted: when the browser capability is absent,
  \<open>get_data_with_playwright\<close> is not called, no browser call is made, and the handler returns
  what \<open>fetch_data_with_httpx\<close> returns, after the one request to the detail API; when the
  capability is present and \<open>get_data_with_playwright\<close> raises, the handler returns what
  \<open>fetch_data_with_httpx\<close> returns; in every case the handler returns a dictionary of the
  four fields. What \<open>fetch_data_with_httpx\<close> returns is one of its two placeholder records,
  which are VideoRecords of four strings, or the four values of the upstream body,
  unchecked.
\<close>

theorem get_douyin_info_fallback:
  assumes "extract_video_id nd (resolved_url env raw) = Some video_id"
  shows "(\<not> PLAYWRIGHT_AVAILABLE env \<longrightarrow>
            fst (get_douyin_info nd env raw) =
              fst (fetch_data_with_httpx env (resolved_url env raw) video_id) \<and>
            snd (get_douyin_info nd env raw) =
              (if str_in (str_of ''v.douyin.com'') (clean_url raw)
               then [RedirectGet (clean_url raw)] else []) @ [ApiGet (api_url_of video_id)] \<and>
            filter is_browser_call (snd (get_douyin_info nd env raw)) = []) \<and>
         (PLAYWRIGHT_AVAILABLE env \<and>
          fst (get_data_with_playwright nd env (resolved_url env raw)) = Inl e \<longrightarrow>
            fst (get_douyin_info nd env raw) =
              fst (fetch_data_with_httpx env (resolved_url env raw) video_id)) \<and>
         (\<exists>r. fst (get_douyin_info nd env raw) = Inr r) \<and>
         (\<exists>r. fst (fetch_data_with_httpx env (resolved_url env raw) video_id) = Inr r \<and>
            (r = \<lparr>aweme_id = JStr video_id, desc = JStr (str_of ''Video Description Unavailable''),
                  video_url = JStr (resolved_url env raw), author = JStr (str_of ''Unknown'')\<rparr> \<or>
             r = \<lparr>aweme_id = JStr video_id, desc = JStr (str_of ''Error retrieving video details''),
                  video_url = JStr (resolved_url env raw), author = JStr (str_of ''Unknown'')\<rparr> \<or>
             (\<exists>response data detail url_list.
                api_get env (api_url_of video_id) = Inr response \<and> status_code response = 200 \<and>
                response_json response = Inr data \<and>
                json_path data [str_of ''aweme_detail''] = Some detail \<and>
                json_path detail [str_of ''aweme_id''] = Some (aweme_id r) \<and>
                json_path detail [str_of ''desc''] = Some (desc r) \<and>
                json_path detail [str_of ''video'', str_of ''play_addr'', str_of ''url_list''] =
                  Some url_list \<and>
                getitem_0 url_list = Inr (video_url r) \<and>
                json_path detail [str_of ''author'', str_of ''nickname''] = Some (author r)))) \<and>
         is_video_record
           \<lparr>aweme_id = JStr video_id, desc = JStr (str_of ''Video Description Unavailable''),
            video_url = JStr (resolved_url env raw), author = JStr (str_of ''Unknown'')\<rparr> \<and>
         is_video_record
           \<lparr>aweme_id = JStr video_id, desc = JStr (str_of ''Error retrieving video details''),
            video_url = JStr (resolved_url env raw), author = JStr (str_of ''Unknown'')\<rparr>"
proof (intro conjI impI)
  assume n: "\<not> PLAYWRIGHT_AVAILABLE env"
  show "fst (get_douyin_info nd env raw) =
          fst (fetch_data_with_httpx env (resolved_url env raw) video_id)"
    using get_douyin_info_plain [OF assms n] by simp
  show "snd (get_douyin_info nd env raw) =
          (if str_in (str_of ''v.douyin.com'') (clean_url raw)
           then [RedirectGet (clean_url raw)] else []) @ [ApiGet (api_url_of video_id)]"
    using get_douyin_info_plain [OF assms n]
    by (simp add: redirect_calls_def fetch_data_with_httpx_snd)
  show "filter is_browser_call (snd (get_douyin_info nd env raw)) = []"
    using get_douyin_info_plain [OF assms n]
    by (simp add: redirect_calls_no_browser fetch_calls_no_browser)
next
  assume "PLAYWRIGHT_AVAILABLE env \<and>
          fst (get_data_with_playwright nd env (resolved_url env raw)) = Inl e"
  then show "fst (get_douyin_info nd env raw) =
          fst (fetch_data_with_httpx env (resolved_url env raw) video_id)"
    using get_douyin_info_browser_failed [OF assms, of e] by simp
next
  show "\<exists>r. fst (get_douyin_info nd env raw) = Inr r"
    using assms by (rule get_douyin_info_Some_returns)
next
  obtain r where r: "fst (fetch_data_with_httpx env (resolved_url env raw) video_id) = Inr r"
    and c: "r = unavailable_record (resolved_url env raw) video_id \<or>
            r = error_record (resolved_url env raw) video_id \<or>
            (\<exists>response data detail.
               api_get env (api_url_of video_id) = Inr response \<and> status_code response = 200 \<and>
               response_json response = Inr data \<and>
               json_path data [str_of ''aweme_detail''] = Some detail \<and>
               detail_fields detail = Inr r)"
    using fetch_data_with_httpx_result by blast
  from c have "r = \<lparr>aweme_id = JStr video_id, desc = JStr (str_of ''Video Description Unavailable''),
                  video_url = JStr (resolved_url env raw), author = JStr (str_of ''Unknown'')\<rparr> \<or>
             r = \<lparr>aweme_id = JStr video_id, desc = JStr (str_of ''Error retrieving video details''),
                  video_url = JStr (resolved_url env raw), author = JStr (str_of ''Unknown'')\<rparr> \<or>
             (\<exists>response data detail url_list.
                api_get env (api_url_of video_id) = Inr response \<and> status_code response = 200 \<and>
                response_json response = Inr data \<and>
                json_path data [str_of ''aweme_detail''] = Some detail \<and>
                json_path detail [str_of ''aweme_id''] = Some (aweme_id r) \<and>
                json_path detail [str_of ''desc''] = Some (desc r) \<and>
                json_path detail [str_of ''video'', str_of ''play_addr'', str_of ''url_list''] =
                  Some url_list \<and>
                getitem_0 url_list = Inr (video_url r) \<and>
                json_path detail [str_of ''author'', str_of ''nickname''] = Some (author r))"
  proof (elim disjE exE conjE)
    assume "r = unavailable_record (resolved_url env raw) video_id"
    then show ?thesis by (simp add: unavailable_record_def)
  next
    assume "r = error_record (resolved_url env raw) video_id"
    then show ?thesis by (simp add: error_record_def)
  next
    fix response data detail
    assume a: "api_get env (api_url_of video_id) = Inr response" "status_code response = 200"
      "response_json response = Inr data" "json_path data [str_of ''aweme_detail''] = Some detail"
      and f: "detail_fields detail = Inr r"
    from detail_fields_Inr [OF f] obtain url_list where
      "json_path detail [str_of ''aweme_id''] = Some (aweme_id r)"
      "json_path detail [str_of ''desc''] = Some (desc r)"
      "json_path detail [str_of ''video'', str_of ''play_addr'', str_of ''url_list''] = Some url_list"
      "getitem_0 url_list = Inr (video_url r)"
      "json_path detail [str_of ''author'', str_of ''nickname''] = Some (author r)"
      by blast
    with a show ?thesis by blast
  qed
  with r show "\<exists>r. fst (fetch_data_with_httpx env (resolved_url env raw) video_id) = Inr r \<and>
            (r = \<lparr>aweme_id = JStr video_id, desc = JStr (str_of ''Video Description Unavailable''),
                  video_url = JStr (resolved_url env raw), author = JStr (str_of ''Unknown'')\<rparr> \<or>
             r = \<lparr>aweme_id = JStr video_id, desc = JStr (str_of ''Error retrieving video details''),
                  video_url = JStr (resolved_url env raw), author = JStr (str_of ''Unknown'')\<rparr> \<or>
             (\<exists>response data detail url_list.
                api_get env (api_url_of video_id) = Inr response \<and> status_code response = 200 \<and>
                response_json response = Inr data \<and>
                json_path data [str_of ''aweme_detail''] = Some detail \<and>
                json_path detail [str_of ''aweme_id''] = Some (aweme_id r) \<and>
                json_path detail [str_of ''desc''] = Some (desc r) \<and>
                json_path detail [str_of ''video'', str_of ''play_addr'', str_of ''url_list''] =
                  Some url_list \<and>
                getitem_0 url_list = Inr (video_url r) \<and>
                json_path detail [str_of ''author'', str_of ''nickname''] = Some (author r)))"
    by blast
next
  show "is_video_record
           \<lparr>aweme_id = JStr video_id, desc = JStr (str_of ''Video Description Unavailable''),
            video_url = JStr (resolved_url env raw), author = JStr (str_of ''Unknown'')\<rparr>"
    by (simp add: is_video_record_def)
next
  show "is_video_record
           \<lparr>aweme_id = JStr video_id, desc = JStr (str_of ''Error retrieving video details''),
            video_url = JStr (resolved_url env raw), author = JStr (str_of ''Unknown'')\<rparr>"
    by (simp add: is_video_record_def)
qed

theorem get_douyin_info_fallback_witness:
  "extract_video_id fullwidth_digit
     (resolved_url (plain_env 404 (Inl (str_of ''no body''))) (str_of ''https://v.douyin.com/ABC123'')) =
     Some (str_of ''999'') \<and>
   \<not> PLAYWRIGHT_AVAILABLE (plain_env 404 (Inl (str_of ''no body''))) \<and>
   fst (get_douyin_info fullwidth_digit (plain_env 404 (Inl (str_of ''no body'')))
          (str_of ''https://v.douyin.com/ABC123'')) =
     fst (fetch_data_with_httpx (plain_env 404 (Inl (str_of ''no body'')))
            (resolved_url (plain_env 404 (Inl (str_of ''no body''))) (str_of ''https://v.douyin.com/ABC123''))
            (str_of ''999'')) \<and>
   snd (get_douyin_info fullwidth_digit (plain_env 404 (Inl (str_of ''no body'')))
          (str_of ''https://v.douyin.com/ABC123'')) =
     [RedirectGet (str_of ''https://v.douyin.com/ABC123''), ApiGet (api_url_of (str_of ''999''))] \<and>
   extract_video_id fullwidth_digit (resolved_url broken_env (str_of ''https://www.douyin.com/video/123'')) =
     Some (str_of ''123'') \<and>
   PLAYWRIGHT_AVAILABLE broken_env \<and>
   fst (get_data_with_playwright fullwidth_digit broken_env
          (resolved_url broken_env (str_of ''https://www.douyin.com/video/123''))) =
     Inl (HTTPException 500 (str_of ''Playwright error: browser executable missing'')) \<and>
   fst (get_douyin_info fullwidth_digit broken_env (str_of ''https://www.douyin.com/video/123'')) =
     fst (fetch_data_with_httpx broken_env
            (resolved_url broken_env (str_of ''https://www.douyin.com/video/123'')) (str_of ''123''))"
proof -
  have c: "clean_url (str_of ''https://v.douyin.com/ABC123'') = str_of ''https://v.douyin.com/ABC123''"
    by (simp add: clean_eval)
  have s: "str_in (str_of ''v.douyin.com'') (str_of ''https://v.douyin.com/ABC123'')"
    by (simp add: str_in_def sublist_code str_of_def)
  have r: "resolved_url (plain_env 404 (Inl (str_of ''no body''))) (str_of ''https://v.douyin.com/ABC123'') =
             str_of ''https://www.douyin.com/video/999?x=1''"
    using c s by (simp add: resolved_url_def follow_redirect_def plain_env_def)
  have "extract_video_id fullwidth_digit (str_of ''https://www.douyin.com/video/999?x=1'') = Some (str_of ''999'')"
    by (simp add: search_eval)
  then have e: "extract_video_id fullwidth_digit
     (resolved_url (plain_env 404 (Inl (str_of ''no body''))) (str_of ''https://v.douyin.com/ABC123'')) =
     Some (str_of ''999'')"
    using r by simp
  have n: "\<not> PLAYWRIGHT_AVAILABLE (plain_env 404 (Inl (str_of ''no body'')))"
    by (simp add: plain_env_def)
  note t = get_douyin_info_fallback [OF e, THEN conjunct1, THEN mp, OF n]
  have tr: "snd (get_douyin_info fullwidth_digit (plain_env 404 (Inl (str_of ''no body'')))
          (str_of ''https://v.douyin.com/ABC123'')) =
     [RedirectGet (str_of ''https://v.douyin.com/ABC123''), ApiGet (api_url_of (str_of ''999''))]"
    using t [THEN conjunct2, THEN conjunct1] c s by simp
  have c2: "clean_url (str_of ''https://www.douyin.com/video/123'') = str_of ''https://www.douyin.com/video/123''"
    by (simp add: clean_eval)
  have s2: "\<not> str_in (str_of ''v.douyin.com'') (str_of ''https://www.douyin.com/video/123'')"
    by (simp add: str_in_def sublist_code str_of_def)
  have r2: "resolved_url broken_env (str_of ''https://www.douyin.com/video/123'') =
              str_of ''https://www.douyin.com/video/123''"
    using c2 s2 by (simp add: resolved_url_def)
  have "extract_video_id fullwidth_digit (str_of ''https://www.douyin.com/video/123'') = Some (str_of ''123'')"
    by (simp add: search_eval)
  then have e2: "extract_video_id fullwidth_digit (resolved_url broken_env (str_of ''https://www.douyin.com/video/123'')) =
     Some (str_of ''123'')"
    using r2 by simp
  have a2: "PLAYWRIGHT_AVAILABLE broken_env"
    by (simp add: broken_env_def)
  have p2: "fst (get_data_with_playwright fullwidth_digit broken_env
          (resolved_url broken_env (str_of ''https://www.douyin.com/video/123''))) =
     Inl (HTTPException 500 (str_of ''Playwright error: browser executable missing''))"
    by (simp add: r2 get_data_with_playwright_def playwright_try_def broken_env_def broken_browser_def
          str_of_def)
  have f2: "fst (get_douyin_info fullwidth_digit broken_env (str_of ''https://www.douyin.com/video/123'')) =
     fst (fetch_data_with_httpx broken_env
            (resolved_url broken_env (str_of ''https://www.douyin.com/video/123'')) (str_of ''123''))"
    using get_douyin_info_fallback [OF e2, THEN conjunct2, THEN conjunct1, THEN mp] a2 p2
    by blast
  show ?thesis
    using e n t [THEN conjunct1] tr e2 a2 p2 f2 by (intro conjI)
qed

section \<open>Orchestrator: a broken browser\<close>

text \<open>
  Claim C1 says that a request whose Playwright sequence raises is answered with status 500
  instead of falling back. The handler does the opposite: the \<open>HTTPException\<close> that
  \<open>get_data_with_playwright\<close> raises is an \<open>Exception\<close>, the handler's \<open>except Exception\<close> catches
  it, logs the fallback and calls \<open>fetch_data_with_httpx\<close>. In the world \<open>broken_env\<close> the
  browser cannot be launched, and the handler returns the placeholder record of the
  Lightweight Fetcher for the video page requested.
\<close>

theorem broken_browser_falls_back:
  "PLAYWRIGHT_AVAILABLE broken_env \<and>
   fst (playwright_try fullwidth_digit (browser broken_env (str_of ''https://www.douyin.com/video/123''))
          (str_of ''https://www.douyin.com/video/123'')) = Inl (str_of ''browser executable missing'') \<and>
   fst (get_data_with_playwright fullwidth_digit broken_env (str_of ''https://www.douyin.com/video/123'')) =
     Inl (HTTPException 500 (str_of ''Playwright error: browser executable missing'')) \<and>
   fst (get_douyin_info fullwidth_digit broken_env (str_of ''https://www.douyin.com/video/123'')) =
     Inr \<lparr>aweme_id = JStr (str_of ''123''), desc = JStr (str_of ''Video Description Unavailable''),
          video_url = JStr (str_of ''https://www.douyin.com/video/123''), author = JStr (str_of ''Unknown'')\<rparr>"
proof -
  have a: "PLAYWRIGHT_AVAILABLE broken_env"
    by (simp add: broken_env_def)
  have p: "fst (playwright_try fullwidth_digit (browser broken_env (str_of ''https://www.douyin.com/video/123''))
          (str_of ''https://www.douyin.com/video/123'')) = Inl (str_of ''browser executable missing'')"
    by (simp add: playwright_try_def broken_env_def broken_browser_def)
  have g: "get_data_with_playwright fullwidth_digit broken_env (str_of ''https://www.douyin.com/video/123'') =
     (Inl (HTTPException 500 (str_of ''Playwright error: browser executable missing'')),
      [GetDataWithPlaywright (str_of ''https://www.douyin.com/video/123''), BrowserLaunch])"
    by (simp add: get_data_with_playwright_def playwright_try_def broken_env_def broken_browser_def
          str_of_def)
  have c: "clean_url (str_of ''https://www.douyin.com/video/123'') = str_of ''https://www.douyin.com/video/123''"
    by (simp add: clean_eval)
  have s: "\<not> str_in (str_of ''v.douyin.com'') (str_of ''https://www.douyin.com/video/123'')"
    by (simp add: str_in_def sublist_code str_of_def)
  have e: "extract_video_id fullwidth_digit (str_of ''https://www.douyin.com/video/123'') = Some (str_of ''123'')"
    by (simp add: search_eval)
  have f: "fetch_data_with_httpx broken_env (str_of ''https://www.douyin.com/video/123'') (str_of ''123'') =
     (Inr \<lparr>aweme_id = JStr (str_of ''123''), desc = JStr (str_of ''Video Description Unavailable''),
          video_url = JStr (str_of ''https://www.douyin.com/video/123''), author = JStr (str_of ''Unknown'')\<rparr>,
      [ApiGet (api_url_of (str_of ''123''))])"
    by (simp add: fetch_data_with_httpx_def fetch_try_def unavailable_record_def broken_env_def)
  have h: "fst (get_douyin_info fullwidth_digit broken_env (str_of ''https://www.douyin.com/video/123'')) =
     Inr \<lparr>aweme_id = JStr (str_of ''123''), desc = JStr (str_of ''Video Description Unavailable''),
          video_url = JStr (str_of ''https://www.douyin.com/video/123''), author = JStr (str_of ''Unknown'')\<rparr>"
    unfolding get_douyin_info_def c using s e a g f by (simp add: str_of_def)
  have g': "fst (get_data_with_playwright fullwidth_digit broken_env (str_of ''https://www.douyin.com/video/123'')) =
     Inl (HTTPException 500 (str_of ''Playwright error: browser executable missing''))"
    using g by simp
  show ?thesis using a p g' h by (intro conjI)
qed

text \<open>
  Claim C1, amended. When the browser capability is present, an identifier is extracted and
  the Playwright sequence raises an exception with message \<open>msg\<close>, then
  \<open>get_data_with_playwright\<close> raises \<open>HTTPException\<close> with status 500 and detail
  \<open>Playwright error: msg\<close> to the handler, and the handler falls back: it returns what
  \<open>fetch_data_with_httpx\<close> returns, a dictionary, instead of raising.
\<close>

theorem get_douyin_info_browser_error_falls_back:
  assumes "PLAYWRIGHT_AVAILABLE env"
    and "extract_video_id nd (resolved_url env raw) = Some video_id"
    and "fst (playwright_try nd (browser env (resolved_url env raw)) (resolved_url env raw)) = Inl msg"
  shows "fst (get_data_with_playwright nd env (resolved_url env raw)) =
           Inl (HTTPException 500 (str_of ''Playwright error: '' @ msg)) \<and>
         fst (get_douyin_info nd env raw) =
           fst (fetch_data_with_httpx env (resolved_url env raw) video_id) \<and>
         (\<exists>r. fst (get_douyin_info nd env raw) = Inr r)"
proof (intro conjI)
  show r: "fst (get_data_with_playwright nd env (resolved_url env raw)) =
           Inl (HTTPException 500 (str_of ''Playwright error: '' @ msg))"
    using assms(1,3) by (rule get_data_with_playwright_raises)
  show "fst (get_douyin_info nd env raw) =
           fst (fetch_data_with_httpx env (resolved_url env raw) video_id)"
    using get_douyin_info_browser_failed [OF assms(2,1) r] by simp
  show "\<exists>r. fst (get_douyin_info nd env raw) = Inr r"
    using assms(2) by (rule get_douyin_info_Some_returns)
qed

theorem get_douyin_info_browser_error_falls_back_witness:
  "PLAYWRIGHT_AVAILABLE broken_env \<and>
   fst (playwright_try fullwidth_digit
          (browser broken_env (resolved_url broken_env (str_of ''https://www.douyin.com/note/67890'')))
          (resolved_url broken_env (str_of ''https://www.douyin.com/note/67890''))) =
     Inl (str_of ''browser executable missing'') \<and>
   fst (get_data_with_playwright fullwidth_digit broken_env
          (resolved_url broken_env (str_of ''https://www.douyin.com/note/67890''))) =
     Inl (HTTPException 500 (str_of ''Playwright error: '' @ str_of ''browser executable missing'')) \<and>
   fst (get_douyin_info fullwidth_digit broken_env (str_of ''https://www.douyin.com/note/67890'')) =
     fst (fetch_data_with_httpx broken_env
            (resolved_url broken_env (str_of ''https://www.douyin.com/note/67890'')) (str_of ''67890''))"
proof -
  have a: "PLAYWRIGHT_AVAILABLE broken_env"
    by (simp add: broken_env_def)
  have c: "clean_url (str_of ''https://www.douyin.com/note/67890'') = str_of ''https://www.douyin.com/note/67890''"
    by (simp add: clean_eval)
  have s: "\<not> str_in (str_of ''v.douyin.com'') (str_of ''https://www.douyin.com/note/67890'')"
    by (simp add: str_in_def sublist_code str_of_def)
  have r: "resolved_url broken_env (str_of ''https://www.douyin.com/note/67890'') =
             str_of ''https://www.douyin.com/note/67890''"
    using c s by (simp add: resolved_url_def)
  have "extract_video_id fullwidth_digit (str_of ''https://www.douyin.com/note/67890'') = Some (str_of ''67890'')"
    by (simp add: search_eval)
  then have e: "extract_video_id fullwidth_digit
      (resolved_url broken_env (str_of ''https://www.douyin.com/note/67890'')) = Some (str_of ''67890'')"
    using r by simp
  have p: "fst (playwright_try fullwidth_digit
          (browser broken_env (resolved_url broken_env (str_of ''https://www.douyin.com/note/67890'')))
          (resolved_url broken_env (str_of ''https://www.douyin.com/note/67890''))) =
     Inl (str_of ''browser executable missing'')"
    by (simp add: playwright_try_def broken_env_def broken_browser_def)
  note t = get_douyin_info_browser_error_falls_back [OF a e p]
  show ?thesis
    using a p t [THEN conjunct1] t [THEN conjunct2, THEN conjunct1] by (intro conjI)
qed

end
